theory Spec2Isabelle
  imports Main "HOL-Library.Word"
begin

section \<open>Time values\<close>

text \<open>
  The program stamps rows with Go \<^verbatim>\<open>time.Time\<close> values and compares them with
  \<^verbatim>\<open>Before\<close> and \<^verbatim>\<open>After\<close>. A time is modelled by its civil date in a fixed
  location together with the nanoseconds elapsed since midnight of that day.
\<close>

record Time =
  year :: int
  month :: int
  day :: int
  nsec :: int

definition isLeap :: "int \<Rightarrow> bool" where
  "isLeap y = (y mod 4 = 0 \<and> (y mod 100 \<noteq> 0 \<or> y mod 400 = 0))"

definition daysIn :: "int \<Rightarrow> int \<Rightarrow> int" where
  "daysIn m y =
     (if m = 2 then (if isLeap y then 29 else 28)
      else if m = 4 \<or> m = 6 \<or> m = 9 \<or> m = 11 then 30
      else 31)"

definition valid_time :: "Time \<Rightarrow> bool" where
  "valid_time t =
     (1 \<le> month t \<and> month t \<le> 12 \<and> 1 \<le> day t \<and> day t \<le> daysIn (month t) (year t)
      \<and> 0 \<le> nsec t \<and> nsec t < 86400000000000)"

text \<open>\<^verbatim>\<open>t.Before(u)\<close> and \<^verbatim>\<open>t.After(u)\<close>: the order of instants.\<close>

definition Before :: "Time \<Rightarrow> Time \<Rightarrow> bool" where
  "Before t u =
     (year t < year u \<or> (year t = year u \<and>
       (month t < month u \<or> (month t = month u \<and>
         (day t < day u \<or> (day t = day u \<and> nsec t < nsec u))))))"

definition After :: "Time \<Rightarrow> Time \<Rightarrow> bool" where
  "After t u = Before u t"

text \<open>
  Both are functions of Go's standard library, modelled after its documentation.
  \<^verbatim>\<open>time.Date\<close> normalises its arguments: a month outside 1..12 overflows into the
  year, and a day outside the month overflows into the neighbouring months (October 32
  is November 1). \<^verbatim>\<open>t.AddDate(years, months, days)\<close> adds to the civil fields of
  \<^verbatim>\<open>t\<close> and normalises the result with \<^verbatim>\<open>Date\<close>, keeping the clock of \<^verbatim>\<open>t\<close>.
\<close>

definition norm_month :: "int \<Rightarrow> int \<Rightarrow> int \<times> int" where
  "norm_month y m = (y + (m - 1) div 12, (m - 1) mod 12 + 1)"

definition prev_month :: "int \<Rightarrow> int \<Rightarrow> int \<times> int" where
  "prev_month y m = (if m \<le> 1 then (y - 1, 12) else (y, m - 1))"

definition next_month :: "int \<Rightarrow> int \<Rightarrow> int \<times> int" where
  "next_month y m = (if 12 \<le> m then (y + 1, 1) else (y, m + 1))"

lemma daysIn_bounds: "28 \<le> daysIn m y \<and> daysIn m y \<le> 31"
  by (simp add: daysIn_def)

function norm_day :: "int \<Rightarrow> int \<Rightarrow> int \<Rightarrow> int \<times> int \<times> int" where
  "norm_day y m d =
     (if d < 1 then
        (case prev_month y m of (y', m') \<Rightarrow> norm_day y' m' (d + daysIn m' y'))
      else if daysIn m y < d then
        (case next_month y m of (y', m') \<Rightarrow> norm_day y' m' (d - daysIn m y))
      else (y, m, d))"
  by pat_completeness auto
termination
  apply (relation "measure (\<lambda>(y, m, d). if d < 1 then nat (33 - d) else nat d)")
    apply simp
  subgoal for y m d x1 x2
    using daysIn_bounds [of x2 x1] by auto
  subgoal for y m d x1 x2
    using daysIn_bounds [of m y] by auto
  done

declare norm_day.simps [simp del]

definition Date :: "int \<Rightarrow> int \<Rightarrow> int \<Rightarrow> int \<Rightarrow> Time" where
  "Date y m d ns =
     (case norm_month y m of (y1, m1) \<Rightarrow>
        (case norm_day y1 m1 d of (y2, m2, d2) \<Rightarrow>
           \<lparr>year = y2, month = m2, day = d2, nsec = ns\<rparr>))"

definition AddDate :: "Time \<Rightarrow> int \<Rightarrow> int \<Rightarrow> int \<Rightarrow> Time" where
  "AddDate t years months days =
     Date (year t + years) (month t + months) (day t + days) (nsec t)"

section \<open>Models\<close>

subsection \<open>Subscription statuses\<close>

text \<open>\<^verbatim>\<open>type SubscriptionStatus string\<close> with its five named constants.\<close>

type_synonym SubscriptionStatus = string

definition StatusRequested :: SubscriptionStatus where
  "StatusRequested = ''requested''"

definition StatusApproved :: SubscriptionStatus where
  "StatusApproved = ''approved''"

definition StatusActive :: SubscriptionStatus where
  "StatusActive = ''active''"

definition StatusInactive :: SubscriptionStatus where
  "StatusInactive = ''inactive''"

definition StatusExpired :: SubscriptionStatus where
  "StatusExpired = ''expired''"

subsection \<open>Rows\<close>

text \<open>
  The four tables. Pointer fields that may be nil are options. The columns maintained by
  the ORM alone (\<^verbatim>\<open>CreatedAt\<close>, \<^verbatim>\<open>UpdatedAt\<close>), the preloaded relationship
  fields and the floating-point \<^verbatim>\<open>Price\<close> of a pack take no part in the lifecycle
  and are left out.
\<close>

record User =
  user_ID :: nat
  Email :: string
  Password :: string
  Role :: string
  APIKey :: "string option"

record Customer =
  cust_ID :: nat
  UserID :: nat
  cust_Name :: string
  Phone :: string
  cust_DeletedAt :: "Time option"

record SubscriptionPack =
  pack_ID :: nat
  pack_Name :: string
  Description :: string
  SKU :: string
  ValidityMonths :: int
  pack_DeletedAt :: "Time option"

record Subscription =
  sub_ID :: nat
  CustomerID :: nat
  PackID :: nat
  Status :: SubscriptionStatus
  RequestedAt :: Time
  ApprovedAt :: "Time option"
  AssignedAt :: "Time option"
  ExpiresAt :: "Time option"
  DeactivatedAt :: "Time option"

subsection \<open>Methods of Subscription\<close>

definition validTransitions :: "(SubscriptionStatus \<times> SubscriptionStatus list) list" where
  "validTransitions =
     [(StatusRequested, [StatusApproved, StatusInactive]),
      (StatusApproved, [StatusActive, StatusInactive]),
      (StatusActive, [StatusInactive, StatusExpired]),
      (StatusInactive, [StatusActive]),
      (StatusExpired, [StatusRequested])]"

text \<open>The loop over \<^verbatim>\<open>allowedStatuses\<close>, returning at the first match.\<close>

fun allowed_loop :: "SubscriptionStatus list \<Rightarrow> SubscriptionStatus \<Rightarrow> bool" where
  "allowed_loop [] newStatus = False"
| "allowed_loop (allowed # rest) newStatus =
     (if allowed = newStatus then True else allowed_loop rest newStatus)"

definition CanTransitionTo :: "Subscription \<Rightarrow> SubscriptionStatus \<Rightarrow> bool" where
  "CanTransitionTo s newStatus =
     (case map_of validTransitions (Status s) of
        None \<Rightarrow> False
      | Some allowedStatuses \<Rightarrow> allowed_loop allowedStatuses newStatus)"

text \<open>
  \<^verbatim>\<open>IsActive\<close> and \<^verbatim>\<open>IsExpired\<close> read the clock; the reading of
  \<^verbatim>\<open>time.Now()\<close> is the argument \<open>now\<close>.
\<close>

definition IsActive :: "Subscription \<Rightarrow> Time \<Rightarrow> bool" where
  "IsActive s now =
     (Status s = StatusActive \<and>
      (case ExpiresAt s of None \<Rightarrow> False | Some e \<Rightarrow> After e now))"

definition IsExpired :: "Subscription \<Rightarrow> Time \<Rightarrow> bool" where
  "IsExpired s now =
     (case ExpiresAt s of None \<Rightarrow> False | Some e \<Rightarrow> Before e now)"

text \<open>
  \<^verbatim>\<open>CalculateExpiry\<close> takes a pointer to the pack and dereferences it only when
  \<^verbatim>\<open>AssignedAt\<close> is set: with a nil pack the dereference panics, which is the
  result \<open>None\<close>.
\<close>

definition CalculateExpiry :: "Subscription \<Rightarrow> SubscriptionPack option \<Rightarrow> Subscription option" where
  "CalculateExpiry s pack =
     (case AssignedAt s of
        None \<Rightarrow> Some s
      | Some assigned \<Rightarrow>
          (case pack of
             None \<Rightarrow> None
           | Some p \<Rightarrow> Some (s\<lparr>ExpiresAt := Some (AddDate assigned 0 (ValidityMonths p) 0)\<rparr>)))"

section \<open>The store\<close>

text \<open>
  The relational store behind \<^verbatim>\<open>h.db\<close>. Each table is the list of its rows in
  primary-key order; the three sequences hold the next primary key of the tables the
  handlers insert into. A query \<^verbatim>\<open>First\<close> orders by primary key and takes the first
  match, which is \<^const>\<open>find\<close> on such a list. Customers and packs carry a
  soft-delete marker, and every query on them skips marked rows; subscriptions have
  none, so \<^verbatim>\<open>Delete\<close> removes the row.
\<close>

record DB =
  users :: "User list"
  customers :: "Customer list"
  packs :: "SubscriptionPack list"
  subscriptions :: "Subscription list"
  users_seq :: nat
  customers_seq :: nat
  subscriptions_seq :: nat

definition first_subscription :: "DB \<Rightarrow> nat \<Rightarrow> Subscription option" where
  "first_subscription st i = find (\<lambda>s. sub_ID s = i) (subscriptions st)"

definition first_customer :: "DB \<Rightarrow> nat \<Rightarrow> Customer option" where
  "first_customer st i =
     find (\<lambda>c. cust_ID c = i \<and> cust_DeletedAt c = None) (customers st)"

definition first_pack :: "DB \<Rightarrow> nat \<Rightarrow> SubscriptionPack option" where
  "first_pack st i = find (\<lambda>p. pack_ID p = i \<and> pack_DeletedAt p = None) (packs st)"

definition first_pack_by_sku :: "DB \<Rightarrow> string \<Rightarrow> SubscriptionPack option" where
  "first_pack_by_sku st sku =
     find (\<lambda>p. SKU p = sku \<and> pack_DeletedAt p = None) (packs st)"

definition save_subscription :: "DB \<Rightarrow> Subscription \<Rightarrow> DB" where
  "save_subscription st s =
     st\<lparr>subscriptions := map (\<lambda>r. if sub_ID r = sub_ID s then s else r) (subscriptions st)\<rparr>"

definition create_subscription :: "DB \<Rightarrow> Subscription \<Rightarrow> Subscription \<times> DB" where
  "create_subscription st s =
     (let s' = s\<lparr>sub_ID := subscriptions_seq st\<rparr>
      in (s', st\<lparr>subscriptions := subscriptions st @ [s'],
                 subscriptions_seq := Suc (subscriptions_seq st)\<rparr>))"

definition delete_subscription :: "DB \<Rightarrow> Subscription \<Rightarrow> DB" where
  "delete_subscription st s =
     st\<lparr>subscriptions := filter (\<lambda>r. sub_ID r \<noteq> sub_ID s) (subscriptions st)\<rparr>"

subsection \<open>Queries of Customer\<close>

definition GetActiveSubscription :: "Customer \<Rightarrow> DB \<Rightarrow> Subscription option" where
  "GetActiveSubscription c st =
     find (\<lambda>s. CustomerID s = cust_ID c \<and> Status s = ''active'') (subscriptions st)"

definition HasActiveSubscription :: "Customer \<Rightarrow> DB \<Rightarrow> bool" where
  "HasActiveSubscription c st =
     (let count = length (filter (\<lambda>s. CustomerID s = cust_ID c \<and> Status s = ''active'')
                            (subscriptions st))
      in count > 0)"

section \<open>Handlers\<close>

text \<open>
  A handler reads the request, reads and writes the store and sends one response. It is
  a function from the store and the request to the response and the new store. The
  request arrives as the handler sees it: the identity that the authentication
  middleware put into the context (\<open>None\<close> when there is none), the path parameter as
  parsed by \<^verbatim>\<open>ParseUint\<close> (\<open>None\<close> when it does not parse), the body as bound by
  \<^verbatim>\<open>ShouldBindJSON\<close> (\<open>None\<close> when binding or validation fails). The reading of the
  clock is the argument \<open>now\<close>, and \<open>wr\<close> tells whether the store accepts the
  handler's write. A nil-pointer panic is the response \<open>Panic\<close>.
\<close>

datatype 'a Response =
  ErrorResponse nat string
| SuccessResponse 'a string
| Panic

abbreviation StatusBadRequest :: nat where "StatusBadRequest \<equiv> 400"
abbreviation StatusUnauthorized :: nat where "StatusUnauthorized \<equiv> 401"
abbreviation StatusNotFound :: nat where "StatusNotFound \<equiv> 404"
abbreviation StatusConflict :: nat where "StatusConflict \<equiv> 409"
abbreviation StatusInternalServerError :: nat where "StatusInternalServerError \<equiv> 500"

subsection \<open>BaseHandler\<close>

definition GetCurrentUser :: "DB \<Rightarrow> nat option \<Rightarrow> User option" where
  "GetCurrentUser st userID =
     (case userID of
        None \<Rightarrow> None
      | Some i \<Rightarrow> find (\<lambda>u. user_ID u = i) (users st))"

text \<open>The preloaded \<^verbatim>\<open>user.Customer\<close> is the profile row of the user, if any.\<close>

definition GetCurrentCustomer :: "DB \<Rightarrow> nat option \<Rightarrow> Customer option" where
  "GetCurrentCustomer st userID =
     (case GetCurrentUser st userID of
        None \<Rightarrow> None
      | Some user \<Rightarrow>
          find (\<lambda>c. UserID c = user_ID user \<and> cust_DeletedAt c = None) (customers st))"

subsection \<open>SubscriptionHandler\<close>

record SubscriptionRequest =
  PackSKU :: string

record CreateSubscriptionRequest =
  req_CustomerID :: nat
  req_PackSKU :: string

definition new_subscription :: "nat \<Rightarrow> nat \<Rightarrow> Time \<Rightarrow> Subscription" where
  "new_subscription customerID packID now =
     \<lparr>sub_ID = 0, CustomerID = customerID, PackID = packID, Status = StatusRequested,
      RequestedAt = now, ApprovedAt = None, AssignedAt = None, ExpiresAt = None,
      DeactivatedAt = None\<rparr>"

definition CreateSubscription ::
  "DB \<Rightarrow> CreateSubscriptionRequest option \<Rightarrow> Time \<Rightarrow> bool \<Rightarrow> Subscription Response \<times> DB" where
  "CreateSubscription st req now wr =
     (case req of
        None \<Rightarrow> (ErrorResponse StatusBadRequest ''Invalid request format'', st)
      | Some r \<Rightarrow>
     (case first_customer st (req_CustomerID r) of
        None \<Rightarrow> (ErrorResponse StatusNotFound ''Customer not found'', st)
      | Some customer \<Rightarrow>
     (case first_pack_by_sku st (req_PackSKU r) of
        None \<Rightarrow> (ErrorResponse StatusNotFound ''Subscription pack not found'', st)
      | Some pack \<Rightarrow>
     if HasActiveSubscription customer st then
       (ErrorResponse StatusConflict ''Customer already has an active subscription'', st)
     else if \<not> wr then
       (ErrorResponse StatusInternalServerError ''Failed to create subscription'', st)
     else
       (case create_subscription st (new_subscription (cust_ID customer) (pack_ID pack) now) of
          (subscription, st') \<Rightarrow>
            (SuccessResponse subscription ''Subscription created successfully'', st')))))"

definition ApproveSubscription ::
  "DB \<Rightarrow> nat option \<Rightarrow> Time \<Rightarrow> bool \<Rightarrow> Subscription Response \<times> DB" where
  "ApproveSubscription st sid now wr =
     (case sid of
        None \<Rightarrow> (ErrorResponse StatusBadRequest ''Invalid subscription ID'', st)
      | Some i \<Rightarrow>
     (case first_subscription st i of
        None \<Rightarrow> (ErrorResponse StatusNotFound ''Subscription not found'', st)
      | Some subscription \<Rightarrow>
     if \<not> CanTransitionTo subscription StatusApproved then
       (ErrorResponse StatusBadRequest ''Subscription cannot be approved in current status'', st)
     else
       (let subscription = subscription\<lparr>Status := StatusApproved, ApprovedAt := Some now\<rparr>
        in if \<not> wr then
             (ErrorResponse StatusInternalServerError ''Failed to approve subscription'', st)
           else
             (SuccessResponse subscription ''Subscription approved successfully'',
              save_subscription st subscription))))"

definition AssignSubscription ::
  "DB \<Rightarrow> nat option \<Rightarrow> Time \<Rightarrow> bool \<Rightarrow> Subscription Response \<times> DB" where
  "AssignSubscription st sid now wr =
     (case sid of
        None \<Rightarrow> (ErrorResponse StatusBadRequest ''Invalid subscription ID'', st)
      | Some i \<Rightarrow>
     (case first_subscription st i of
        None \<Rightarrow> (ErrorResponse StatusNotFound ''Subscription not found'', st)
      | Some subscription \<Rightarrow>
     if \<not> CanTransitionTo subscription StatusActive then
       (ErrorResponse StatusBadRequest ''Subscription cannot be assigned in current status'', st)
     else
     (case first_customer st (CustomerID subscription) of
        None \<Rightarrow> (ErrorResponse StatusNotFound ''Customer not found'', st)
      | Some customer \<Rightarrow>
     if HasActiveSubscription customer st then
       (ErrorResponse StatusConflict ''Customer already has an active subscription'', st)
     else
     (case CalculateExpiry (subscription\<lparr>Status := StatusActive, AssignedAt := Some now\<rparr>)
             (first_pack st (PackID subscription)) of
        None \<Rightarrow> (Panic, st)
      | Some subscription \<Rightarrow>
          if \<not> wr then
            (ErrorResponse StatusInternalServerError ''Failed to assign subscription'', st)
          else
            (SuccessResponse subscription ''Subscription assigned successfully'',
             save_subscription st subscription)))))"

definition UnassignSubscription ::
  "DB \<Rightarrow> nat option \<Rightarrow> Time \<Rightarrow> bool \<Rightarrow> Subscription Response \<times> DB" where
  "UnassignSubscription st sid now wr =
     (case sid of
        None \<Rightarrow> (ErrorResponse StatusBadRequest ''Invalid subscription ID'', st)
      | Some i \<Rightarrow>
     (case first_subscription st i of
        None \<Rightarrow> (ErrorResponse StatusNotFound ''Subscription not found'', st)
      | Some subscription \<Rightarrow>
     if Status subscription \<noteq> StatusActive then
       (ErrorResponse StatusBadRequest ''Only active subscriptions can be unassigned'', st)
     else
       (let subscription = subscription\<lparr>Status := StatusInactive, DeactivatedAt := Some now\<rparr>
        in if \<not> wr then
             (ErrorResponse StatusInternalServerError ''Failed to unassign subscription'', st)
           else
             (SuccessResponse subscription ''Subscription unassigned successfully'',
              save_subscription st subscription))))"

text \<open>\<^verbatim>\<open>DeleteSubscription\<close> answers with a message only.\<close>

definition DeleteSubscription :: "DB \<Rightarrow> nat option \<Rightarrow> bool \<Rightarrow> string Response \<times> DB" where
  "DeleteSubscription st sid wr =
     (case sid of
        None \<Rightarrow> (ErrorResponse StatusBadRequest ''Invalid subscription ID'', st)
      | Some i \<Rightarrow>
     (case first_subscription st i of
        None \<Rightarrow> (ErrorResponse StatusNotFound ''Subscription not found'', st)
      | Some subscription \<Rightarrow>
     if \<not> wr then
       (ErrorResponse StatusInternalServerError ''Failed to delete subscription'', st)
     else
       (SuccessResponse ''Subscription deleted successfully'' [],
        delete_subscription st subscription)))"

definition RequestSubscription ::
  "DB \<Rightarrow> nat option \<Rightarrow> SubscriptionRequest option \<Rightarrow> Time \<Rightarrow> bool
     \<Rightarrow> Subscription Response \<times> DB" where
  "RequestSubscription st userID req now wr =
     (case GetCurrentCustomer st userID of
        None \<Rightarrow> (ErrorResponse StatusUnauthorized ''Customer not found'', st)
      | Some customer \<Rightarrow>
     (case req of
        None \<Rightarrow> (ErrorResponse StatusBadRequest ''Invalid request format'', st)
      | Some r \<Rightarrow>
     if HasActiveSubscription customer st then
       (ErrorResponse StatusConflict ''Customer already has an active subscription'', st)
     else
     (case first_pack_by_sku st (PackSKU r) of
        None \<Rightarrow> (ErrorResponse StatusBadRequest ''Invalid subscription pack'', st)
      | Some pack \<Rightarrow>
     if \<not> wr then
       (ErrorResponse StatusInternalServerError ''Failed to create subscription request'', st)
     else
       (case create_subscription st (new_subscription (cust_ID customer) (pack_ID pack) now) of
          (subscription, st') \<Rightarrow>
            (SuccessResponse subscription ''Subscription request created successfully'', st')))))"

definition DeactivateSubscription ::
  "DB \<Rightarrow> nat option \<Rightarrow> Time \<Rightarrow> bool \<Rightarrow> Subscription Response \<times> DB" where
  "DeactivateSubscription st userID now wr =
     (case GetCurrentCustomer st userID of
        None \<Rightarrow> (ErrorResponse StatusUnauthorized ''Customer not found'', st)
      | Some customer \<Rightarrow>
     (case GetActiveSubscription customer st of
        None \<Rightarrow> (ErrorResponse StatusNotFound ''No active subscription found'', st)
      | Some subscription \<Rightarrow>
       (let subscription = subscription\<lparr>Status := StatusInactive, DeactivatedAt := Some now\<rparr>
        in if \<not> wr then
             (ErrorResponse StatusInternalServerError ''Failed to deactivate subscription'', st)
           else
             (SuccessResponse subscription ''Subscription deactivated successfully'',
              save_subscription st subscription))))"

subsection \<open>SDKHandler: the subscription endpoints\<close>

definition SDK_RequestSubscription ::
  "DB \<Rightarrow> nat option \<Rightarrow> SubscriptionRequest option \<Rightarrow> Time \<Rightarrow> bool
     \<Rightarrow> Subscription Response \<times> DB" where
  "SDK_RequestSubscription st userID req now wr =
     (case GetCurrentCustomer st userID of
        None \<Rightarrow> (ErrorResponse StatusUnauthorized ''Customer not found'', st)
      | Some customer \<Rightarrow>
     (case req of
        None \<Rightarrow> (ErrorResponse StatusBadRequest ''Invalid request format'', st)
      | Some r \<Rightarrow>
     if HasActiveSubscription customer st then
       (ErrorResponse StatusConflict ''Customer already has an active subscription'', st)
     else
     (case first_pack_by_sku st (PackSKU r) of
        None \<Rightarrow> (ErrorResponse StatusBadRequest ''Invalid subscription pack'', st)
      | Some pack \<Rightarrow>
     if \<not> wr then
       (ErrorResponse StatusInternalServerError ''Failed to create subscription request'', st)
     else
       (case create_subscription st (new_subscription (cust_ID customer) (pack_ID pack) now) of
          (subscription, st') \<Rightarrow>
            (SuccessResponse subscription ''Subscription request created successfully'', st')))))"

definition SDK_DeactivateSubscription ::
  "DB \<Rightarrow> nat option \<Rightarrow> Time \<Rightarrow> bool \<Rightarrow> Subscription Response \<times> DB" where
  "SDK_DeactivateSubscription st userID now wr =
     (case GetCurrentCustomer st userID of
        None \<Rightarrow> (ErrorResponse StatusUnauthorized ''Customer not found'', st)
      | Some customer \<Rightarrow>
     (case GetActiveSubscription customer st of
        None \<Rightarrow> (ErrorResponse StatusNotFound ''No active subscription found'', st)
      | Some subscription \<Rightarrow>
       (let subscription = subscription\<lparr>Status := StatusInactive, DeactivatedAt := Some now\<rparr>
        in if \<not> wr then
             (ErrorResponse StatusInternalServerError ''Failed to deactivate subscription'', st)
           else
             (SuccessResponse subscription ''Subscription deactivated successfully'',
              save_subscription st subscription))))"

section \<open>Users and credentials\<close>

text \<open>
  Password hashing is \<^verbatim>\<open>bcrypt\<close> and token signing is the JWT library; both are
  taken as parameters: \<open>hash\<close> is \<^verbatim>\<open>GenerateFromPassword\<close> (\<open>None\<close> when it
  fails), \<open>compare\<close> tells whether \<^verbatim>\<open>CompareHashAndPassword\<close> accepts a stored
  hash and a submitted password, and \<open>sign\<close> signs the claims of a token. The bytes
  that \<^verbatim>\<open>rand.Read\<close> delivers are the argument \<open>entropy\<close> (\<open>None\<close> when it fails).
\<close>

definition HashPassword :: "(string \<Rightarrow> string option) \<Rightarrow> User \<Rightarrow> User option" where
  "HashPassword hash u =
     (case hash (Password u) of
        None \<Rightarrow> None
      | Some hashedPassword \<Rightarrow> Some (u\<lparr>Password := hashedPassword\<rparr>))"

definition CheckPassword :: "(string \<Rightarrow> string \<Rightarrow> bool) \<Rightarrow> User \<Rightarrow> string \<Rightarrow> bool" where
  "CheckPassword compare u password = compare (Password u) password"

definition IsAdmin :: "User \<Rightarrow> bool" where
  "IsAdmin u = (Role u = ''admin'')"

definition IsCustomer :: "User \<Rightarrow> bool" where
  "IsCustomer u = (Role u = ''customer'')"

text \<open>\<^verbatim>\<open>hex.EncodeToString\<close>: two lower-case hexadecimal digits for each byte.\<close>

definition hextable :: string where
  "hextable = ''0123456789abcdef''"

definition EncodeToString :: "8 word list \<Rightarrow> string" where
  "EncodeToString bytes =
     concat (map (\<lambda>v. [hextable ! unat (drop_bit 4 v), hextable ! unat (take_bit 4 v)]) bytes)"

definition GenerateAPIKey :: "User \<Rightarrow> 8 word list option \<Rightarrow> User option" where
  "GenerateAPIKey u entropy =
     (case entropy of
        None \<Rightarrow> None
      | Some bytes \<Rightarrow> Some (u\<lparr>APIKey := Some (''sk-sdk-'' @ EncodeToString bytes)\<rparr>))"

definition HasAPIKey :: "User \<Rightarrow> bool" where
  "HasAPIKey u = (case APIKey u of None \<Rightarrow> False | Some k \<Rightarrow> k \<noteq> [])"

definition save_user :: "DB \<Rightarrow> User \<Rightarrow> DB" where
  "save_user st u =
     st\<lparr>users := map (\<lambda>r. if user_ID r = user_ID u then u else r) (users st)\<rparr>"

definition create_user :: "DB \<Rightarrow> User \<Rightarrow> User \<times> DB" where
  "create_user st u =
     (let u' = u\<lparr>user_ID := users_seq st\<rparr>
      in (u', st\<lparr>users := users st @ [u'], users_seq := Suc (users_seq st)\<rparr>))"

definition create_customer :: "DB \<Rightarrow> Customer \<Rightarrow> Customer \<times> DB" where
  "create_customer st c =
     (let c' = c\<lparr>cust_ID := customers_seq st\<rparr>
      in (c', st\<lparr>customers := customers st @ [c'], customers_seq := Suc (customers_seq st)\<rparr>))"

definition first_user_by_email_role :: "DB \<Rightarrow> string \<Rightarrow> string \<Rightarrow> User option" where
  "first_user_by_email_role st email role =
     find (\<lambda>u. Email u = email \<and> Role u = role) (users st)"

definition first_user_by_email :: "DB \<Rightarrow> string \<Rightarrow> User option" where
  "first_user_by_email st email = find (\<lambda>u. Email u = email) (users st)"

subsection \<open>UserHandler\<close>

record LoginRequest =
  login_Email :: string
  login_Password :: string

record SignupRequest =
  signup_Email :: string
  signup_Password :: string
  signup_Name :: string
  signup_Phone :: string

record LoginResponse =
  Token :: string
  login_User :: User

record SDKLoginResponse =
  sdk_APIKey :: string
  sdk_User :: User

definition generateJWT ::
  "(nat \<times> string \<times> string \<times> Time \<Rightarrow> string option) \<Rightarrow> User \<Rightarrow> Time \<Rightarrow> string option" where
  "generateJWT sign user now = sign (user_ID user, Email user, Role user, now)"

definition AdminLogin ::
  "(string \<Rightarrow> string \<Rightarrow> bool) \<Rightarrow> (nat \<times> string \<times> string \<times> Time \<Rightarrow> string option)
     \<Rightarrow> DB \<Rightarrow> LoginRequest option \<Rightarrow> Time \<Rightarrow> LoginResponse Response" where
  "AdminLogin compare sign st req now =
     (case req of
        None \<Rightarrow> ErrorResponse StatusBadRequest ''Invalid request format''
      | Some r \<Rightarrow>
     (case first_user_by_email_role st (login_Email r) ''admin'' of
        None \<Rightarrow> ErrorResponse StatusUnauthorized ''Invalid credentials''
      | Some user \<Rightarrow>
     if \<not> CheckPassword compare user (login_Password r) then
       ErrorResponse StatusUnauthorized ''Invalid credentials''
     else
     (case generateJWT sign user now of
        None \<Rightarrow> ErrorResponse StatusInternalServerError ''Failed to generate token''
      | Some token \<Rightarrow>
          SuccessResponse \<lparr>Token = token, login_User = user\<lparr>Password := [], APIKey := None\<rparr>\<rparr>
            ''Login successful'')))"

definition CustomerLogin ::
  "(string \<Rightarrow> string \<Rightarrow> bool) \<Rightarrow> (nat \<times> string \<times> string \<times> Time \<Rightarrow> string option)
     \<Rightarrow> DB \<Rightarrow> LoginRequest option \<Rightarrow> Time \<Rightarrow> LoginResponse Response" where
  "CustomerLogin compare sign st req now =
     (case req of
        None \<Rightarrow> ErrorResponse StatusBadRequest ''Invalid request format''
      | Some r \<Rightarrow>
     (case first_user_by_email_role st (login_Email r) ''customer'' of
        None \<Rightarrow> ErrorResponse StatusUnauthorized ''Invalid credentials''
      | Some user \<Rightarrow>
     if \<not> CheckPassword compare user (login_Password r) then
       ErrorResponse StatusUnauthorized ''Invalid credentials''
     else
     (case generateJWT sign user now of
        None \<Rightarrow> ErrorResponse StatusInternalServerError ''Failed to generate token''
      | Some token \<Rightarrow>
          SuccessResponse \<lparr>Token = token, login_User = user\<lparr>Password := [], APIKey := None\<rparr>\<rparr>
            ''Login successful'')))"

text \<open>
  \<^verbatim>\<open>CustomerSignup\<close> writes twice, the user row and then the profile row, outside any
  transaction: \<open>wr1\<close> and \<open>wr2\<close> tell whether the store accepts each write.
\<close>

definition CustomerSignup ::
  "(string \<Rightarrow> string option) \<Rightarrow> (nat \<times> string \<times> string \<times> Time \<Rightarrow> string option)
     \<Rightarrow> DB \<Rightarrow> SignupRequest option \<Rightarrow> 8 word list option \<Rightarrow> Time \<Rightarrow> bool \<Rightarrow> bool
     \<Rightarrow> LoginResponse Response \<times> DB" where
  "CustomerSignup hash sign st req entropy now wr1 wr2 =
     (case req of
        None \<Rightarrow> (ErrorResponse StatusBadRequest ''Invalid request format'', st)
      | Some r \<Rightarrow>
     (case first_user_by_email st (signup_Email r) of
        Some existingUser \<Rightarrow> (ErrorResponse StatusConflict ''Email already registered'', st)
      | None \<Rightarrow>
     (case HashPassword hash
             \<lparr>user_ID = 0, Email = signup_Email r, Password = signup_Password r,
              Role = ''customer'', APIKey = None\<rparr> of
        None \<Rightarrow> (ErrorResponse StatusInternalServerError ''Failed to process password'', st)
      | Some user \<Rightarrow>
     (case GenerateAPIKey user entropy of
        None \<Rightarrow> (ErrorResponse StatusInternalServerError ''Failed to generate API key'', st)
      | Some user \<Rightarrow>
     if \<not> wr1 then (ErrorResponse StatusInternalServerError ''Failed to create user'', st)
     else
     (case create_user st user of (user, st1) \<Rightarrow>
     if \<not> wr2 then
       (ErrorResponse StatusInternalServerError ''Failed to create customer profile'', st1)
     else
     (case create_customer st1
             \<lparr>cust_ID = 0, UserID = user_ID user, cust_Name = signup_Name r,
              Phone = signup_Phone r, cust_DeletedAt = None\<rparr> of (customer, st2) \<Rightarrow>
     (case generateJWT sign user now of
        None \<Rightarrow> (ErrorResponse StatusInternalServerError ''Failed to generate token'', st2)
      | Some token \<Rightarrow>
          (SuccessResponse \<lparr>Token = token, login_User = user\<lparr>Password := [], APIKey := None\<rparr>\<rparr>
             ''Registration successful'', st2))))))))"

subsection \<open>CustomerHandler: creation by an admin\<close>

record CreateCustomerRequest =
  cc_Email :: string
  cc_Password :: string
  cc_Name :: string
  cc_Phone :: string

definition CreateCustomer ::
  "(string \<Rightarrow> string option) \<Rightarrow> DB \<Rightarrow> CreateCustomerRequest option \<Rightarrow> bool \<Rightarrow> bool
     \<Rightarrow> Customer Response \<times> DB" where
  "CreateCustomer hash st req wr1 wr2 =
     (case req of
        None \<Rightarrow> (ErrorResponse StatusBadRequest ''Invalid request format'', st)
      | Some r \<Rightarrow>
     (case first_user_by_email st (cc_Email r) of
        Some existingUser \<Rightarrow> (ErrorResponse StatusConflict ''Email already registered'', st)
      | None \<Rightarrow>
     (case HashPassword hash
             \<lparr>user_ID = 0, Email = cc_Email r, Password = cc_Password r,
              Role = ''customer'', APIKey = None\<rparr> of
        None \<Rightarrow> (ErrorResponse StatusInternalServerError ''Failed to process password'', st)
      | Some user \<Rightarrow>
     if \<not> wr1 then (ErrorResponse StatusInternalServerError ''Failed to create user'', st)
     else
     (case create_user st user of (user, st1) \<Rightarrow>
     if \<not> wr2 then
       (ErrorResponse StatusInternalServerError ''Failed to create customer profile'', st1)
     else
     (case create_customer st1
             \<lparr>cust_ID = 0, UserID = user_ID user, cust_Name = cc_Name r,
              Phone = cc_Phone r, cust_DeletedAt = None\<rparr> of (customer, st2) \<Rightarrow>
        (SuccessResponse customer ''Customer created successfully'', st2))))))"

subsection \<open>SDKHandler: login\<close>

text \<open>The success response of the SDK login, built from the user as the handler holds it.\<close>

definition sdk_login_response :: "User \<Rightarrow> SDKLoginResponse Response" where
  "sdk_login_response user =
     SuccessResponse
       \<lparr>sdk_APIKey = (case APIKey user of None \<Rightarrow> [] | Some k \<Rightarrow> k),
        sdk_User = user\<lparr>Password := []\<rparr>\<rparr>
       ''SDK authentication successful''"

definition SDK_Login ::
  "(string \<Rightarrow> string \<Rightarrow> bool) \<Rightarrow> DB \<Rightarrow> LoginRequest option \<Rightarrow> 8 word list option \<Rightarrow> bool
     \<Rightarrow> SDKLoginResponse Response \<times> DB" where
  "SDK_Login compare st req entropy wr =
     (case req of
        None \<Rightarrow> (ErrorResponse StatusBadRequest ''Invalid request format'', st)
      | Some r \<Rightarrow>
     (case first_user_by_email_role st (login_Email r) ''customer'' of
        None \<Rightarrow> (ErrorResponse StatusUnauthorized ''Invalid credentials'', st)
      | Some user \<Rightarrow>
     if \<not> CheckPassword compare user (login_Password r) then
       (ErrorResponse StatusUnauthorized ''Invalid credentials'', st)
     else if \<not> HasAPIKey user then
       (case GenerateAPIKey user entropy of
          None \<Rightarrow> (ErrorResponse StatusInternalServerError ''Failed to generate API key'', st)
        | Some user \<Rightarrow>
            if \<not> wr then
              (ErrorResponse StatusInternalServerError ''Failed to save API key'', st)
            else (sdk_login_response user, save_user st user))
     else (sdk_login_response user, st)))"

section \<open>Sequential executions\<close>

text \<open>
  The number of a customer's subscriptions of status \<^verbatim>\<open>active\<close>; the primary key
  of the subscriptions table (the rows stand in the order of their keys, no key occurs
  twice, and the sequence is above every key in use); and the step relation of the
  handlers that write to that table: one step is one request, served alone.
\<close>

definition active_count :: "DB \<Rightarrow> nat \<Rightarrow> nat" where
  "active_count st c =
     length (filter (\<lambda>s. CustomerID s = c \<and> Status s = StatusActive) (subscriptions st))"

definition wf_subscriptions :: "DB \<Rightarrow> bool" where
  "wf_subscriptions st =
     (sorted_wrt (<) (map sub_ID (subscriptions st)) \<and>
      list_all (\<lambda>s. sub_ID s < subscriptions_seq st) (subscriptions st))"

inductive step :: "DB \<Rightarrow> DB \<Rightarrow> bool" where
  Request: "step st (snd (RequestSubscription st userID req now wr))"
| SDK_Request: "step st (snd (SDK_RequestSubscription st userID req now wr))"
| Create: "step st (snd (CreateSubscription st creq now wr))"
| Approve: "step st (snd (ApproveSubscription st sid now wr))"
| Assign: "step st (snd (AssignSubscription st sid now wr))"
| Unassign: "step st (snd (UnassignSubscription st sid now wr))"
| Delete: "step st (snd (DeleteSubscription st sid wr))"
| Deactivate: "step st (snd (DeactivateSubscription st userID now wr))"
| SDK_Deactivate: "step st (snd (SDK_DeactivateSubscription st userID now wr))"

definition no_expired :: "DB \<Rightarrow> bool" where
  "no_expired st = list_all (\<lambda>s. Status s \<noteq> StatusExpired) (subscriptions st)"

definition is_error :: "'a Response \<Rightarrow> bool" where
  "is_error r = (case r of ErrorResponse code message \<Rightarrow> True | _ \<Rightarrow> False)"

text \<open>The row that a request for a pack inserts for a customer.\<close>

definition requested_row :: "DB \<Rightarrow> Customer \<Rightarrow> SubscriptionPack \<Rightarrow> Time \<Rightarrow> Subscription" where
  "requested_row st customer pack now =
     \<lparr>sub_ID = subscriptions_seq st, CustomerID = cust_ID customer, PackID = pack_ID pack,
      Status = StatusRequested, RequestedAt = now, ApprovedAt = None, AssignedAt = None,
      ExpiresAt = None, DeactivatedAt = None\<rparr>"

text \<open>The store with one more row at the end of the subscriptions table.\<close>

definition with_row :: "DB \<Rightarrow> Subscription \<Rightarrow> DB" where
  "with_row st s =
     st\<lparr>subscriptions := subscriptions st @ [s],
        subscriptions_seq := Suc (subscriptions_seq st)\<rparr>"

text \<open>
  Request, Approve and Assign, one after the other, on the subscription that the request
  creates.
\<close>

definition lifecycle ::
  "DB \<Rightarrow> nat option \<Rightarrow> SubscriptionRequest \<Rightarrow> Time \<Rightarrow> Time \<Rightarrow> Time \<Rightarrow> DB" where
  "lifecycle st userID r t1 t2 t3 =
     (let sid = Some (subscriptions_seq st);
          st1 = snd (RequestSubscription st userID (Some r) t1 True);
          st2 = snd (ApproveSubscription st1 sid t2 True)
      in snd (AssignSubscription st2 sid t3 True))"

section \<open>A worked example\<close>

text \<open>
  A small store for concrete runs: an administrator, one customer with her profile, and
  one pack valid for one month.
\<close>

definition example_time :: "int \<Rightarrow> int \<Rightarrow> Time" where
  "example_time m d = \<lparr>year = 2024, month = m, day = d, nsec = 0\<rparr>"

definition example_store :: DB where
  "example_store =
     \<lparr>users =
        [\<lparr>user_ID = 1, Email = ''root@example.com'', Password = ''hash-of-admin'',
          Role = ''admin'', APIKey = None\<rparr>,
         \<lparr>user_ID = 2, Email = ''ann@example.com'', Password = ''hash-of-secret'',
          Role = ''customer'', APIKey = None\<rparr>],
      customers =
        [\<lparr>cust_ID = 1, UserID = 2, cust_Name = ''Ann'', Phone = [], cust_DeletedAt = None\<rparr>],
      packs =
        [\<lparr>pack_ID = 1, pack_Name = ''Basic'', Description = [], SKU = ''basic-1m'',
          ValidityMonths = 1, pack_DeletedAt = None\<rparr>],
      subscriptions = [],
      users_seq = 3, customers_seq = 2, subscriptions_seq = 1\<rparr>"

text \<open>
  The same store later: Ann's first subscription is active, her second one was requested
  before the first was assigned and has been approved since.
\<close>

definition example_busy_store :: DB where
  "example_busy_store =
     example_store
       \<lparr>subscriptions :=
          [\<lparr>sub_ID = 1, CustomerID = 1, PackID = 1, Status = StatusActive,
            RequestedAt = example_time 1 29, ApprovedAt = Some (example_time 1 30),
            AssignedAt = Some (example_time 1 31), ExpiresAt = Some (example_time 3 2),
            DeactivatedAt = None\<rparr>,
           \<lparr>sub_ID = 2, CustomerID = 1, PackID = 1, Status = StatusApproved,
            RequestedAt = example_time 1 29, ApprovedAt = Some (example_time 1 30),
            AssignedAt = None, ExpiresAt = None, DeactivatedAt = None\<rparr>],
        subscriptions_seq := 3\<rparr>"

text \<open>The store when Ann's first request has been approved.\<close>

definition example_approved_store :: DB where
  "example_approved_store =
     example_store
       \<lparr>subscriptions :=
          [\<lparr>sub_ID = 1, CustomerID = 1, PackID = 1, Status = StatusApproved,
            RequestedAt = example_time 1 29, ApprovedAt = Some (example_time 1 30),
            AssignedAt = None, ExpiresAt = None, DeactivatedAt = None\<rparr>],
        subscriptions_seq := 2\<rparr>"

text \<open>
  One subscription of Ann's through its life: requested, approved, assigned on
  31 January 2024 and unassigned the next day.
\<close>

definition example_run :: DB where
  "example_run =
     (let st1 = snd (RequestSubscription example_store (Some 2) (Some \<lparr>PackSKU = ''basic-1m''\<rparr>)
                  (example_time 1 29) True);
          st2 = snd (ApproveSubscription st1 (Some 1) (example_time 1 30) True);
          st3 = snd (AssignSubscription st2 (Some 1) (example_time 1 31) True)
      in snd (UnassignSubscription st3 (Some 1) (example_time 2 1) True))"

text \<open>Stand-ins for bcrypt and for the token signature in concrete runs.\<close>

definition example_hash :: "string \<Rightarrow> string option" where
  "example_hash password = Some (''hash-of-'' @ password)"

definition example_compare :: "string \<Rightarrow> string \<Rightarrow> bool" where
  "example_compare hashed password = (hashed = ''hash-of-'' @ password)"

definition example_sign :: "nat \<times> string \<times> string \<times> Time \<Rightarrow> string option" where
  "example_sign claims = Some ''signed-token''"

text \<open>Sixteen bytes of entropy, a login of Ann's and a signup of Bob's.\<close>

definition example_entropy :: "8 word list" where
  "example_entropy = [0, 1, 2, 3, 4, 5, 6, 7, 8, 9, 10, 11, 12, 13, 14, 255]"

definition example_login :: LoginRequest where
  "example_login = \<lparr>login_Email = ''ann@example.com'', login_Password = ''secret''\<rparr>"

definition example_signup :: SignupRequest where
  "example_signup =
     \<lparr>signup_Email = ''bob@example.com'', signup_Password = ''hunter22'',
      signup_Name = ''Bob'', signup_Phone = []\<rparr>"

section \<open>The transition table\<close>

lemma status_distinct:
  "StatusRequested \<noteq> StatusApproved" "StatusRequested \<noteq> StatusActive"
  "StatusRequested \<noteq> StatusInactive" "StatusRequested \<noteq> StatusExpired"
  "StatusApproved \<noteq> StatusActive" "StatusApproved \<noteq> StatusInactive"
  "StatusApproved \<noteq> StatusExpired" "StatusActive \<noteq> StatusInactive"
  "StatusActive \<noteq> StatusExpired" "StatusInactive \<noteq> StatusExpired"
  by (simp_all add: StatusRequested_def StatusApproved_def StatusActive_def
      StatusInactive_def StatusExpired_def)

lemmas status_defs =
  StatusRequested_def StatusApproved_def StatusActive_def StatusInactive_def StatusExpired_def

lemma CanTransitionTo_iff:
  "CanTransitionTo s newStatus =
     ((Status s = StatusRequested \<and> (newStatus = StatusApproved \<or> newStatus = StatusInactive)) \<or>
      (Status s = StatusApproved \<and> (newStatus = StatusActive \<or> newStatus = StatusInactive)) \<or>
      (Status s = StatusActive \<and> (newStatus = StatusInactive \<or> newStatus = StatusExpired)) \<or>
      (Status s = StatusInactive \<and> newStatus = StatusActive) \<or>
      (Status s = StatusExpired \<and> newStatus = StatusRequested))"
  using status_distinct
  by (auto simp add: CanTransitionTo_def validTransitions_def split: option.splits if_splits)

text \<open>
  Claim C2. \<^verbatim>\<open>CanTransitionTo\<close> answers true exactly for the eight pairs of the
  transition table: requested to approved or inactive, approved to active or inactive,
  active to inactive or expired, inactive to active, expired to requested. Every other
  pair is rejected, whatever the two status strings are; from expired, approved is
  rejected.
\<close>

theorem CanTransitionTo_table:
  "CanTransitionTo s newStatus =
     ((Status s = StatusRequested \<and> (newStatus = StatusApproved \<or> newStatus = StatusInactive)) \<or>
      (Status s = StatusApproved \<and> (newStatus = StatusActive \<or> newStatus = StatusInactive)) \<or>
      (Status s = StatusActive \<and> (newStatus = StatusInactive \<or> newStatus = StatusExpired)) \<or>
      (Status s = StatusInactive \<and> newStatus = StatusActive) \<or>
      (Status s = StatusExpired \<and> newStatus = StatusRequested))
   \<and> CanTransitionTo (s\<lparr>Status := StatusExpired\<rparr>) StatusApproved = False"
  using status_distinct by (simp add: CanTransitionTo_iff)

section \<open>Expiry\<close>

lemma norm_day_in_range:
  "1 \<le> d \<Longrightarrow> d \<le> daysIn m y \<Longrightarrow> norm_day y m d = (y, m, d)"
  by (subst norm_day.simps) simp

lemma norm_day_overflow:
  assumes "daysIn m y < d" and "d \<le> 31"
  shows "norm_day y m d = (fst (next_month y m), snd (next_month y m), d - daysIn m y)"
proof -
  obtain y' m' where nm: "next_month y m = (y', m')" by (cases "next_month y m")
  have d1: "\<not> d < 1" using assms daysIn_bounds [of m y] by linarith
  have unfold: "norm_day y m d = norm_day y' m' (d - daysIn m y)"
    using assms d1 nm by (subst norm_day.simps) simp
  have "1 \<le> d - daysIn m y" using assms by simp
  moreover have "d - daysIn m y \<le> daysIn m' y'"
    using assms daysIn_bounds [of m y] daysIn_bounds [of m' y'] by linarith
  ultimately have "norm_day y' m' (d - daysIn m y) = (y', m', d - daysIn m y)"
    by (rule norm_day_in_range)
  with unfold nm show ?thesis by simp
qed

lemma AddDate_months:
  assumes "valid_time t"
  shows "AddDate t 0 n 0 =
     (case norm_month (year t) (month t + n) of (y', m') \<Rightarrow>
        if day t \<le> daysIn m' y' then t\<lparr>year := y', month := m'\<rparr>
        else (case next_month y' m' of (y'', m'') \<Rightarrow>
                t\<lparr>year := y'', month := m'', day := day t - daysIn m' y'\<rparr>))"
proof -
  obtain y' m' where nm: "norm_month (year t) (month t + n) = (y', m')"
    by (cases "norm_month (year t) (month t + n)")
  have d: "1 \<le> day t" "day t \<le> 31"
    using assms daysIn_bounds [of "month t" "year t"] by (auto simp add: valid_time_def)
  show ?thesis
  proof (cases "day t \<le> daysIn m' y'")
    case True
    then have "norm_day y' m' (day t) = (y', m', day t)"
      using d by (intro norm_day_in_range)
    then show ?thesis using nm True by (simp add: AddDate_def Date_def)
  next
    case False
    then have "norm_day y' m' (day t) =
        (fst (next_month y' m'), snd (next_month y' m'), day t - daysIn m' y')"
      using d by (intro norm_day_overflow) auto
    then show ?thesis using nm False
      by (simp add: AddDate_def Date_def split: prod.splits)
  qed
qed

section \<open>Effects of the handlers on the store\<close>

lemma find_Some_set: "find P xs = Some x \<Longrightarrow> x \<in> set xs \<and> P x"
  by (induction xs) (auto split: if_splits)

lemma find_None_set: "find P xs = None \<Longrightarrow> x \<in> set xs \<Longrightarrow> \<not> P x"
  by (induction xs) (auto split: if_splits)

lemma count_le_one_iff:
  "distinct (map f xs) \<Longrightarrow>
     (length (filter P xs) \<le> 1) = (\<forall>x\<in>set xs. \<forall>y\<in>set xs. P x \<and> P y \<longrightarrow> f x = f y)"
proof (induction xs)
  case Nil
  then show ?case by simp
next
  case (Cons a xs)
  show ?case
  proof (cases "P a")
    case True
    have "(length (filter P (a # xs)) \<le> 1) = (\<forall>x\<in>set xs. \<not> P x)"
      using True by (simp add: filter_empty_conv)
    also have "\<dots> = (\<forall>x\<in>set (a # xs). \<forall>y\<in>set (a # xs). P x \<and> P y \<longrightarrow> f x = f y)"
      using True Cons.prems by (auto simp add: image_iff)
    finally show ?thesis .
  next
    case False
    have d: "distinct (map f xs)" using Cons.prems by simp
    have "(length (filter P (a # xs)) \<le> 1) = (length (filter P xs) \<le> 1)"
      using False by simp
    also have "\<dots> = (\<forall>x\<in>set xs. \<forall>y\<in>set xs. P x \<and> P y \<longrightarrow> f x = f y)"
      by (rule Cons.IH [OF d])
    also have "\<dots> = (\<forall>x\<in>set (a # xs). \<forall>y\<in>set (a # xs). P x \<and> P y \<longrightarrow> f x = f y)"
      using False by auto
    finally show ?thesis .
  qed
qed

definition pairwise_active :: "Subscription list \<Rightarrow> bool" where
  "pairwise_active xs =
     (\<forall>x\<in>set xs. \<forall>y\<in>set xs.
        CustomerID x = CustomerID y \<and> Status x = StatusActive \<and> Status y = StatusActive
          \<longrightarrow> sub_ID x = sub_ID y)"

lemma one_active_pairwise:
  assumes "distinct (map sub_ID (subscriptions st))"
  shows "(\<forall>c. active_count st c \<le> 1) = pairwise_active (subscriptions st)"
proof
  assume h: "\<forall>c. active_count st c \<le> 1"
  show "pairwise_active (subscriptions st)"
    unfolding pairwise_active_def
  proof (intro ballI impI)
    fix x y
    assume xy: "x \<in> set (subscriptions st)" "y \<in> set (subscriptions st)"
      and c: "CustomerID x = CustomerID y \<and> Status x = StatusActive \<and> Status y = StatusActive"
    let ?P = "\<lambda>s. CustomerID s = CustomerID x \<and> Status s = StatusActive"
    from h have "active_count st (CustomerID x) \<le> 1" ..
    then have "length (filter ?P (subscriptions st)) \<le> 1"
      unfolding active_count_def .
    then have "\<forall>a\<in>set (subscriptions st). \<forall>b\<in>set (subscriptions st). ?P a \<and> ?P b \<longrightarrow> sub_ID a = sub_ID b"
      by (rule iffD1 [OF count_le_one_iff [OF assms]])
    then have "\<forall>b\<in>set (subscriptions st). ?P x \<and> ?P b \<longrightarrow> sub_ID x = sub_ID b"
      using xy(1) by (rule bspec)
    then have "?P x \<and> ?P y \<longrightarrow> sub_ID x = sub_ID y"
      using xy(2) by (rule bspec)
    moreover have "?P x \<and> ?P y" using c by simp
    ultimately show "sub_ID x = sub_ID y" by (rule mp)
  qed
next
  assume h: "pairwise_active (subscriptions st)"
  show "\<forall>c. active_count st c \<le> 1"
  proof
    fix c
    let ?P = "\<lambda>s. CustomerID s = c \<and> Status s = StatusActive"
    have "\<forall>a\<in>set (subscriptions st). \<forall>b\<in>set (subscriptions st). ?P a \<and> ?P b \<longrightarrow> sub_ID a = sub_ID b"
    proof (intro ballI impI)
      fix a b
      assume ab: "a \<in> set (subscriptions st)" "b \<in> set (subscriptions st)"
        and p: "?P a \<and> ?P b"
      from h have "\<forall>y\<in>set (subscriptions st).
          CustomerID a = CustomerID y \<and> Status a = StatusActive \<and> Status y = StatusActive
            \<longrightarrow> sub_ID a = sub_ID y"
        unfolding pairwise_active_def using ab(1) by (rule bspec)
      then have "CustomerID a = CustomerID b \<and> Status a = StatusActive \<and> Status b = StatusActive
          \<longrightarrow> sub_ID a = sub_ID b"
        using ab(2) by (rule bspec)
      with p show "sub_ID a = sub_ID b" by simp
    qed
    then have "length (filter ?P (subscriptions st)) \<le> 1"
      by (rule iffD2 [OF count_le_one_iff [OF assms]])
    then show "active_count st c \<le> 1"
      unfolding active_count_def .
  qed
qed

lemma HasActiveSubscription_count:
  "HasActiveSubscription c st = (0 < active_count st (cust_ID c))"
  by (simp add: HasActiveSubscription_def active_count_def StatusActive_def)

lemma no_active_set:
  "active_count st c = 0 \<Longrightarrow> x \<in> set (subscriptions st) \<Longrightarrow> CustomerID x = c \<Longrightarrow> Status x \<noteq> StatusActive"
  by (auto simp add: active_count_def filter_empty_conv)


subsection \<open>Tables keyed by a primary key\<close>

lemma find_save_same:
  "find (\<lambda>r. key r = k) xs = Some x \<Longrightarrow> key s = k \<Longrightarrow>
     find (\<lambda>r. key r = k) (map (\<lambda>r. if key r = k then s else r) xs) = Some s"
  by (induction xs) (simp_all split: if_splits)

lemma find_save_other:
  "key s = k \<Longrightarrow> k' \<noteq> k \<Longrightarrow>
     find (\<lambda>r. key r = k') (map (\<lambda>r. if key r = k then s else r) xs) = find (\<lambda>r. key r = k') xs"
  by (induction xs) simp_all

lemma map_key_save:
  "key s = k \<Longrightarrow> map key (map (\<lambda>r. if key r = k then s else r) xs) = map key xs"
  by (induction xs) simp_all

lemma set_save:
  "y \<in> set (map (\<lambda>r. if key r = k then s else r) xs) \<Longrightarrow> y = s \<or> (y \<in> set xs \<and> key y \<noteq> k)"
  by (induction xs) (simp_all split: if_splits, blast+)

lemma find_append_new:
  "\<forall>x\<in>set xs. key x \<noteq> k \<Longrightarrow> key s = k \<Longrightarrow> find (\<lambda>r. key r = k) (xs @ [s]) = Some s"
  by (induction xs) simp_all

lemma find_append_old:
  "key s \<noteq> k \<Longrightarrow> find (\<lambda>r. key r = k) (xs @ [s]) = find (\<lambda>r. key r = k) xs"
  by (induction xs) simp_all

lemma find_key: "find (\<lambda>r. key r = k) xs = Some x \<Longrightarrow> key x = k \<and> x \<in> set xs"
  by (induction xs) (simp_all split: if_splits)


subsection \<open>What a handler can do to the subscriptions table\<close>

definition store_effect :: "DB \<Rightarrow> DB \<Rightarrow> bool" where
  "store_effect st st' =
     (st' = st \<or>
      (\<exists>c p now. st' = snd (create_subscription st (new_subscription c p now))) \<or>
      (\<exists>x s. x \<in> set (subscriptions st) \<and> sub_ID s = sub_ID x \<and> CustomerID s = CustomerID x \<and>
         (Status s = StatusApproved \<or> Status s = StatusInactive \<or>
          (Status s = StatusActive \<and> active_count st (CustomerID x) = 0)) \<and>
         st' = save_subscription st s) \<or>
      (\<exists>x. st' = delete_subscription st x))"

lemma store_effect_refl: "store_effect st st"
  by (simp add: store_effect_def)

lemma store_effect_create:
  "store_effect st (snd (create_subscription st (new_subscription c p now)))"
  unfolding store_effect_def by blast

lemma store_effect_create':
  "create_subscription st (new_subscription c p now) = (s, st') \<Longrightarrow> store_effect st st'"
  using store_effect_create [of st c p now] by simp

lemma store_effect_save:
  "x \<in> set (subscriptions st) \<Longrightarrow> sub_ID s = sub_ID x \<Longrightarrow> CustomerID s = CustomerID x \<Longrightarrow>
   Status s = StatusApproved \<or> Status s = StatusInactive \<or>
     (Status s = StatusActive \<and> active_count st (CustomerID x) = 0) \<Longrightarrow>
   store_effect st (save_subscription st s)"
  unfolding store_effect_def by blast

lemma store_effect_delete: "store_effect st (delete_subscription st x)"
  unfolding store_effect_def by blast

lemma first_subscription_set:
  "first_subscription st i = Some x \<Longrightarrow> x \<in> set (subscriptions st) \<and> sub_ID x = i"
  unfolding first_subscription_def by (drule find_Some_set) simp

lemma GetActiveSubscription_set:
  "GetActiveSubscription c st = Some x \<Longrightarrow>
     x \<in> set (subscriptions st) \<and> CustomerID x = cust_ID c \<and> Status x = StatusActive"
  unfolding GetActiveSubscription_def StatusActive_def by (drule find_Some_set) simp

lemma RequestSubscription_effect:
  "store_effect st (snd (RequestSubscription st userID req now wr))"
  by (auto simp add: RequestSubscription_def store_effect_refl
      split: option.splits prod.splits intro: store_effect_create')

lemma SDK_RequestSubscription_effect:
  "store_effect st (snd (SDK_RequestSubscription st userID req now wr))"
  by (auto simp add: SDK_RequestSubscription_def store_effect_refl
      split: option.splits prod.splits intro: store_effect_create')

lemma CreateSubscription_effect:
  "store_effect st (snd (CreateSubscription st req now wr))"
  by (auto simp add: CreateSubscription_def store_effect_refl
      split: option.splits prod.splits intro: store_effect_create')

lemma ApproveSubscription_effect:
  "store_effect st (snd (ApproveSubscription st sid now wr))"
proof (cases "fst (ApproveSubscription st sid now wr)")
  case (SuccessResponse s msg)
  then obtain i x where x: "first_subscription st i = Some x"
      and s: "snd (ApproveSubscription st sid now wr) =
              save_subscription st (x\<lparr>Status := StatusApproved, ApprovedAt := Some now\<rparr>)"
    by (auto simp add: ApproveSubscription_def Let_def split: option.splits if_splits)
  from first_subscription_set [OF x] show ?thesis
    unfolding s by (intro store_effect_save [of x]) simp_all
next
  case (ErrorResponse code msg)
  then have "snd (ApproveSubscription st sid now wr) = st"
    by (auto simp add: ApproveSubscription_def Let_def split: option.splits if_splits)
  then show ?thesis by (simp add: store_effect_refl)
next
  case Panic
  then have "snd (ApproveSubscription st sid now wr) = st"
    by (auto simp add: ApproveSubscription_def Let_def split: option.splits if_splits)
  then show ?thesis by (simp add: store_effect_refl)
qed


lemma CalculateExpiry_Some:
  "CalculateExpiry s p = Some s' \<Longrightarrow> \<exists>e. s' = s\<lparr>ExpiresAt := e\<rparr>"
  unfolding CalculateExpiry_def
  by (cases "AssignedAt s"; cases p) (auto intro: exI [of _ "ExpiresAt s"])

lemma first_customer_set:
  "first_customer st i = Some c \<Longrightarrow>
     c \<in> set (customers st) \<and> cust_ID c = i \<and> cust_DeletedAt c = None"
  unfolding first_customer_def by (drule find_Some_set) simp

lemma AssignSubscription_effect:
  "store_effect st (snd (AssignSubscription st sid now wr))"
proof (cases "fst (AssignSubscription st sid now wr)")
  case (SuccessResponse s msg)
  then obtain i x c s' where x: "first_subscription st i = Some x"
      and c: "first_customer st (CustomerID x) = Some c" "\<not> HasActiveSubscription c st"
      and e: "CalculateExpiry (x\<lparr>Status := StatusActive, AssignedAt := Some now\<rparr>)
                (first_pack st (PackID x)) = Some s'"
      and s: "snd (AssignSubscription st sid now wr) = save_subscription st s'"
    by (auto simp add: AssignSubscription_def split: option.splits if_splits)
  from CalculateExpiry_Some [OF e] obtain ex
    where s': "s' = x\<lparr>Status := StatusActive, AssignedAt := Some now, ExpiresAt := ex\<rparr>"
    by auto
  from c first_customer_set [OF c(1)] have "active_count st (CustomerID x) = 0"
    by (simp add: HasActiveSubscription_count)
  with first_subscription_set [OF x] show ?thesis
    unfolding s by (intro store_effect_save [of x]) (simp_all add: s')
next
  case (ErrorResponse code msg)
  then have "snd (AssignSubscription st sid now wr) = st"
    by (auto simp add: AssignSubscription_def split: option.splits if_splits)
  then show ?thesis by (simp add: store_effect_refl)
next
  case Panic
  then have "snd (AssignSubscription st sid now wr) = st"
    by (auto simp add: AssignSubscription_def split: option.splits if_splits)
  then show ?thesis by (simp add: store_effect_refl)
qed

lemma UnassignSubscription_effect:
  "store_effect st (snd (UnassignSubscription st sid now wr))"
proof (cases "fst (UnassignSubscription st sid now wr)")
  case (SuccessResponse s msg)
  then obtain i x where x: "first_subscription st i = Some x"
      and s: "snd (UnassignSubscription st sid now wr) =
              save_subscription st (x\<lparr>Status := StatusInactive, DeactivatedAt := Some now\<rparr>)"
    by (auto simp add: UnassignSubscription_def Let_def split: option.splits if_splits)
  from first_subscription_set [OF x] show ?thesis
    unfolding s by (intro store_effect_save [of x]) simp_all
next
  case (ErrorResponse code msg)
  then have "snd (UnassignSubscription st sid now wr) = st"
    by (auto simp add: UnassignSubscription_def Let_def split: option.splits if_splits)
  then show ?thesis by (simp add: store_effect_refl)
next
  case Panic
  then have "snd (UnassignSubscription st sid now wr) = st"
    by (auto simp add: UnassignSubscription_def Let_def split: option.splits if_splits)
  then show ?thesis by (simp add: store_effect_refl)
qed

lemma DeleteSubscription_effect:
  "store_effect st (snd (DeleteSubscription st sid wr))"
  by (simp add: DeleteSubscription_def store_effect_refl store_effect_delete
      split: option.splits)

lemma DeactivateSubscription_effect:
  "store_effect st (snd (DeactivateSubscription st userID now wr))"
proof (cases "fst (DeactivateSubscription st userID now wr)")
  case (SuccessResponse s msg)
  then obtain c x where x: "GetActiveSubscription c st = Some x"
      and s: "snd (DeactivateSubscription st userID now wr) =
              save_subscription st (x\<lparr>Status := StatusInactive, DeactivatedAt := Some now\<rparr>)"
    by (auto simp add: DeactivateSubscription_def Let_def split: option.splits if_splits)
  from GetActiveSubscription_set [OF x] show ?thesis
    unfolding s by (intro store_effect_save [of x]) simp_all
next
  case (ErrorResponse code msg)
  then have "snd (DeactivateSubscription st userID now wr) = st"
    by (auto simp add: DeactivateSubscription_def Let_def split: option.splits if_splits)
  then show ?thesis by (simp add: store_effect_refl)
next
  case Panic
  then have "snd (DeactivateSubscription st userID now wr) = st"
    by (auto simp add: DeactivateSubscription_def Let_def split: option.splits if_splits)
  then show ?thesis by (simp add: store_effect_refl)
qed

lemma SDK_RequestSubscription_eq:
  "SDK_RequestSubscription st userID req now wr = RequestSubscription st userID req now wr"
  by (simp add: SDK_RequestSubscription_def RequestSubscription_def)

lemma SDK_DeactivateSubscription_eq:
  "SDK_DeactivateSubscription st userID now wr = DeactivateSubscription st userID now wr"
  by (simp add: SDK_DeactivateSubscription_def DeactivateSubscription_def)

lemma step_effect: "step st st' \<Longrightarrow> store_effect st st'"
  by (induction rule: step.induct)
    (simp_all add: RequestSubscription_effect SDK_RequestSubscription_effect
      CreateSubscription_effect ApproveSubscription_effect AssignSubscription_effect
      UnassignSubscription_effect DeleteSubscription_effect DeactivateSubscription_effect
      SDK_DeactivateSubscription_eq)

subsection \<open>Invariants of the subscriptions table\<close>

lemma subscriptions_create:
  "subscriptions (snd (create_subscription st s)) =
     subscriptions st @ [s\<lparr>sub_ID := subscriptions_seq st\<rparr>]"
  "subscriptions_seq (snd (create_subscription st s)) = Suc (subscriptions_seq st)"
  by (simp_all add: create_subscription_def Let_def)

lemma subscriptions_save:
  "subscriptions (save_subscription st s) =
     map (\<lambda>r. if sub_ID r = sub_ID s then s else r) (subscriptions st)"
  "subscriptions_seq (save_subscription st s) = subscriptions_seq st"
  by (simp_all add: save_subscription_def)

lemma subscriptions_delete:
  "subscriptions (delete_subscription st x) =
     filter (\<lambda>r. sub_ID r \<noteq> sub_ID x) (subscriptions st)"
  "subscriptions_seq (delete_subscription st x) = subscriptions_seq st"
  by (simp_all add: delete_subscription_def)

lemma wf_distinct: "wf_subscriptions st \<Longrightarrow> distinct (map sub_ID (subscriptions st))"
  by (simp add: wf_subscriptions_def strict_sorted_iff)

lemma wf_create: "wf_subscriptions st \<Longrightarrow> wf_subscriptions (snd (create_subscription st s))"
  unfolding wf_subscriptions_def subscriptions_create
  by (simp add: list_all_iff less_Suc_eq sorted_wrt_append)

lemma wf_subscriptions_ids:
  "wf_subscriptions st =
     (sorted_wrt (<) (map sub_ID (subscriptions st)) \<and>
      list_all (\<lambda>i. i < subscriptions_seq st) (map sub_ID (subscriptions st)))"
  by (simp add: wf_subscriptions_def list_all_iff)

lemma wf_save: "wf_subscriptions st \<Longrightarrow> wf_subscriptions (save_subscription st s)"
  unfolding wf_subscriptions_ids subscriptions_save
  by (simp only: map_key_save [OF refl])

lemma wf_delete: "wf_subscriptions st \<Longrightarrow> wf_subscriptions (delete_subscription st x)"
  unfolding wf_subscriptions_def subscriptions_delete
  by (simp add: sorted_wrt_map sorted_wrt_filter list_all_iff)

lemma wf_effect: "wf_subscriptions st \<Longrightarrow> store_effect st st' \<Longrightarrow> wf_subscriptions st'"
  unfolding store_effect_def using wf_create wf_save wf_delete by blast


lemma no_expired_effect:
  assumes "no_expired st" and "store_effect st st'"
  shows "no_expired st'"
proof -
  from assms(2) consider (same) "st' = st"
    | (create) c p now where "st' = snd (create_subscription st (new_subscription c p now))"
    | (save) x s where "x \<in> set (subscriptions st)" "sub_ID s = sub_ID x"
        "Status s = StatusApproved \<or> Status s = StatusInactive \<or> Status s = StatusActive"
        "st' = save_subscription st s"
    | (delete) x where "st' = delete_subscription st x"
    unfolding store_effect_def by blast
  then show ?thesis
  proof cases
    case same
    with assms(1) show ?thesis by simp
  next
    case create
    with assms(1) show ?thesis
      using status_distinct
      by (simp add: no_expired_def subscriptions_create new_subscription_def)
  next
    case save
    have s: "Status s \<noteq> StatusExpired" using save(3) status_distinct by auto
    have o: "\<forall>y\<in>set (subscriptions st). Status y \<noteq> StatusExpired"
      using assms(1) by (simp add: no_expired_def list_all_iff)
    show ?thesis
      unfolding save(4) no_expired_def subscriptions_save list_all_iff
    proof
      fix y
      assume "y \<in> set (map (\<lambda>r. if sub_ID r = sub_ID s then s else r) (subscriptions st))"
      then have "y = s \<or> (y \<in> set (subscriptions st) \<and> sub_ID y \<noteq> sub_ID s)"
        by (rule set_save)
      with o s show "Status y \<noteq> StatusExpired" by blast
    qed
  next
    case delete
    with assms(1) show ?thesis
      by (simp add: no_expired_def subscriptions_delete list_all_iff)
  qed
qed

lemma pairwise_active_effect:
  assumes "pairwise_active (subscriptions st)" and "store_effect st st'"
  shows "pairwise_active (subscriptions st')"
proof -
  from assms(2) consider (same) "st' = st"
    | (create) c p now where "st' = snd (create_subscription st (new_subscription c p now))"
    | (save) x s where "x \<in> set (subscriptions st)" "sub_ID s = sub_ID x"
        "CustomerID s = CustomerID x"
        "Status s = StatusApproved \<or> Status s = StatusInactive \<or>
          (Status s = StatusActive \<and> active_count st (CustomerID x) = 0)"
        "st' = save_subscription st s"
    | (delete) x where "st' = delete_subscription st x"
    unfolding store_effect_def by blast
  then show ?thesis
  proof cases
    case same
    with assms(1) show ?thesis by simp
  next
    case create
    let ?n = "(new_subscription c p now)\<lparr>sub_ID := subscriptions_seq st\<rparr>"
    have n: "Status ?n \<noteq> StatusActive"
      using status_distinct by (simp add: new_subscription_def)
    show ?thesis
      unfolding create subscriptions_create pairwise_active_def
    proof (intro ballI impI)
      fix a b
      assume ab: "a \<in> set (subscriptions st @ [?n])" "b \<in> set (subscriptions st @ [?n])"
        and r: "CustomerID a = CustomerID b \<and> Status a = StatusActive \<and> Status b = StatusActive"
      from ab r n have "a \<in> set (subscriptions st)" "b \<in> set (subscriptions st)"
        by auto
      with assms(1) r show "sub_ID a = sub_ID b"
        unfolding pairwise_active_def by blast
    qed
  next
    case save
    show ?thesis
      unfolding save(5) subscriptions_save pairwise_active_def
    proof (intro ballI impI)
      fix a b
      let ?ys = "map (\<lambda>r. if sub_ID r = sub_ID s then s else r) (subscriptions st)"
      assume ab: "a \<in> set ?ys" "b \<in> set ?ys"
        and r: "CustomerID a = CustomerID b \<and> Status a = StatusActive \<and> Status b = StatusActive"
      have old: "y \<in> set ?ys \<Longrightarrow> y = s \<or> (y \<in> set (subscriptions st) \<and> sub_ID y \<noteq> sub_ID s)" for y
        by (rule set_save)
      have clash: False
        if "y \<in> set (subscriptions st)" "Status y = StatusActive" "CustomerID y = CustomerID s"
           "Status s = StatusActive" for y
      proof -
        from save(4) that(4) status_distinct have "active_count st (CustomerID x) = 0"
          by auto
        from no_active_set [OF this that(1)] that(2,3) save(3) show False by simp
      qed
      from old [OF ab(1)] old [OF ab(2)] show "sub_ID a = sub_ID b"
      proof (elim disjE conjE)
        assume "a = s" "b = s"
        then show ?thesis by simp
      next
        assume "a = s" "b \<in> set (subscriptions st)"
        with r clash [of b] show ?thesis by simp
      next
        assume "a \<in> set (subscriptions st)" "b = s"
        with r clash [of a] show ?thesis by simp
      next
        assume "a \<in> set (subscriptions st)" "b \<in> set (subscriptions st)"
        with assms(1) r show ?thesis
          unfolding pairwise_active_def by blast
      qed
    qed
  next
    case delete
    show ?thesis
      unfolding delete subscriptions_delete pairwise_active_def
    proof (intro ballI impI)
      fix a b
      let ?ys = "filter (\<lambda>r. sub_ID r \<noteq> sub_ID x) (subscriptions st)"
      assume ab: "a \<in> set ?ys" "b \<in> set ?ys"
        and r: "CustomerID a = CustomerID b \<and> Status a = StatusActive \<and> Status b = StatusActive"
      from ab have "a \<in> set (subscriptions st)" "b \<in> set (subscriptions st)"
        by simp_all
      with assms(1) r show "sub_ID a = sub_ID b"
        unfolding pairwise_active_def by blast
    qed
  qed
qed


lemma expired_rows_effect:
  assumes "store_effect st st'" and "y \<in> set (subscriptions st')" and "Status y = StatusExpired"
  shows "y \<in> set (subscriptions st)"
proof -
  from assms(1) consider (same) "st' = st"
    | (create) c p now where "st' = snd (create_subscription st (new_subscription c p now))"
    | (save) s where
        "Status s = StatusApproved \<or> Status s = StatusInactive \<or> Status s = StatusActive"
        "st' = save_subscription st s"
    | (delete) x where "st' = delete_subscription st x"
    unfolding store_effect_def by blast
  then show ?thesis
  proof cases
    case same
    with assms(2) show ?thesis by simp
  next
    case create
    with assms(2,3) status_distinct show ?thesis
      by (auto simp add: subscriptions_create new_subscription_def)
  next
    case save
    from assms(2) have "y = s \<or> (y \<in> set (subscriptions st) \<and> sub_ID y \<noteq> sub_ID s)"
      unfolding save(2) subscriptions_save by (rule set_save)
    with save(1) assms(3) status_distinct show ?thesis by auto
  next
    case delete
    with assms(2) show ?thesis by (simp add: subscriptions_delete)
  qed
qed

lemma one_active_effect:
  assumes "wf_subscriptions st" and "\<forall>c. active_count st c \<le> 1" and "store_effect st st'"
  shows "wf_subscriptions st' \<and> (\<forall>c. active_count st' c \<le> 1)"
proof -
  have wf': "wf_subscriptions st'" using assms(1,3) by (rule wf_effect)
  have d: "distinct (map sub_ID (subscriptions st))" "distinct (map sub_ID (subscriptions st'))"
    using assms(1) wf' by (simp_all add: wf_distinct)
  from assms(2) have "pairwise_active (subscriptions st)"
    by (simp only: one_active_pairwise [OF d(1)])
  then have "pairwise_active (subscriptions st')"
    using assms(3) by (rule pairwise_active_effect)
  then have "\<forall>c. active_count st' c \<le> 1"
    by (simp only: one_active_pairwise [OF d(2)])
  with wf' show ?thesis by simp
qed

lemma one_active_steps:
  assumes "step\<^sup>*\<^sup>* st st'" and "wf_subscriptions st" and "\<forall>c. active_count st c \<le> 1"
  shows "wf_subscriptions st' \<and> (\<forall>c. active_count st' c \<le> 1)"
  using assms
proof (induction rule: rtranclp_induct)
  case base
  then show ?case by simp
next
  case (step y z)
  then have "wf_subscriptions y" "\<forall>c. active_count y c \<le> 1" by simp_all
  then show ?case using step_effect [OF step(2)] by (rule one_active_effect)
qed

lemma no_expired_steps:
  assumes "step\<^sup>*\<^sup>* st st'" and "no_expired st"
  shows "no_expired st'"
  using assms
proof (induction rule: rtranclp_induct)
  case base
  then show ?case by simp
next
  case (step y z)
  then have "no_expired y" by simp
  then show ?case using step_effect [OF step(2)] by (rule no_expired_effect)
qed


section \<open>At most one active subscription for a customer\<close>

lemma example_busy_store_ok:
  "wf_subscriptions example_busy_store" "\<forall>c. active_count example_busy_store c \<le> 1"
  by (simp_all add: wf_subscriptions_def active_count_def example_busy_store_def
      example_store_def status_defs)

text \<open>
  Claim C1. In a store that obeys the primary key of the subscriptions table and holds
  at most one subscription of status \<^verbatim>\<open>active\<close> for each customer, every request
  served by RequestSubscription (of either API), CreateSubscription, ApproveSubscription,
  AssignSubscription, UnassignSubscription, DeleteSubscription or DeactivateSubscription
  (of either API) leaves a store with the same two properties, and so does every
  sequence of such requests. When the customer already has an active subscription,
  RequestSubscription answers 409 and writes nothing; CreateSubscription and
  AssignSubscription answer with an error and write nothing, and the error is 409 as
  soon as their earlier checks (customer and pack found, transition allowed) pass.
\<close>

theorem one_active_subscription_per_customer:
  assumes "wf_subscriptions st" and "\<forall>c. active_count st c \<le> 1"
  shows
    "(\<forall>st'. step st st' \<longrightarrow> wf_subscriptions st' \<and> (\<forall>c. active_count st' c \<le> 1))
     \<and> (\<forall>st'. step\<^sup>*\<^sup>* st st' \<longrightarrow> wf_subscriptions st' \<and> (\<forall>c. active_count st' c \<le> 1))
     \<and> (\<forall>customer.
           GetCurrentCustomer st userID = Some customer \<and> 0 < active_count st (cust_ID customer) \<longrightarrow>
           RequestSubscription st userID (Some r) now wr =
             (ErrorResponse StatusConflict ''Customer already has an active subscription'', st) \<and>
           SDK_RequestSubscription st userID (Some r) now wr =
             (ErrorResponse StatusConflict ''Customer already has an active subscription'', st))
     \<and> (\<forall>customer pack.
           first_customer st (req_CustomerID cr) = Some customer \<and>
           first_pack_by_sku st (req_PackSKU cr) = Some pack \<and>
           0 < active_count st (req_CustomerID cr) \<longrightarrow>
           CreateSubscription st (Some cr) now wr =
             (ErrorResponse StatusConflict ''Customer already has an active subscription'', st))
     \<and> (0 < active_count st (req_CustomerID cr) \<longrightarrow>
           is_error (fst (CreateSubscription st (Some cr) now wr)) \<and>
           snd (CreateSubscription st (Some cr) now wr) = st)
     \<and> (\<forall>sub customer.
           first_subscription st i = Some sub \<and> CanTransitionTo sub StatusActive \<and>
           first_customer st (CustomerID sub) = Some customer \<and>
           0 < active_count st (CustomerID sub) \<longrightarrow>
           AssignSubscription st (Some i) now wr =
             (ErrorResponse StatusConflict ''Customer already has an active subscription'', st))
     \<and> (\<forall>sub.
           first_subscription st i = Some sub \<and> 0 < active_count st (CustomerID sub) \<longrightarrow>
           is_error (fst (AssignSubscription st (Some i) now wr)) \<and>
           snd (AssignSubscription st (Some i) now wr) = st)"
proof (intro conjI allI impI)
  fix st'
  assume "step st st'"
  then have e: "store_effect st st'" by (rule step_effect)
  from one_active_effect [OF assms e]
  show "wf_subscriptions st'" and "\<And>c. active_count st' c \<le> 1" by simp_all
next
  fix st'
  assume "step\<^sup>*\<^sup>* st st'"
  from one_active_steps [OF this assms]
  show "wf_subscriptions st'" and "\<And>c. active_count st' c \<le> 1" by simp_all
next
  fix customer
  assume h: "GetCurrentCustomer st userID = Some customer \<and> 0 < active_count st (cust_ID customer)"
  then have a: "HasActiveSubscription customer st" by (simp add: HasActiveSubscription_count)
  from h a show "RequestSubscription st userID (Some r) now wr =
      (ErrorResponse StatusConflict ''Customer already has an active subscription'', st)"
    by (simp add: RequestSubscription_def)
  from h a show "SDK_RequestSubscription st userID (Some r) now wr =
      (ErrorResponse StatusConflict ''Customer already has an active subscription'', st)"
    by (simp add: SDK_RequestSubscription_def)
next
  fix customer pack
  assume h: "first_customer st (req_CustomerID cr) = Some customer \<and>
    first_pack_by_sku st (req_PackSKU cr) = Some pack \<and> 0 < active_count st (req_CustomerID cr)"
  with first_customer_set [of st "req_CustomerID cr" customer]
  have "HasActiveSubscription customer st" by (simp add: HasActiveSubscription_count)
  with h show "CreateSubscription st (Some cr) now wr =
      (ErrorResponse StatusConflict ''Customer already has an active subscription'', st)"
    by (simp add: CreateSubscription_def)
next
  assume h: "0 < active_count st (req_CustomerID cr)"
  have a: "HasActiveSubscription customer st"
    if "first_customer st (req_CustomerID cr) = Some customer" for customer
    using first_customer_set [OF that] h by (simp add: HasActiveSubscription_count)
  show "is_error (fst (CreateSubscription st (Some cr) now wr))"
    using a by (simp add: CreateSubscription_def is_error_def split: option.splits)
  show "snd (CreateSubscription st (Some cr) now wr) = st"
    using a by (simp add: CreateSubscription_def split: option.splits)
next
  fix sub customer
  assume h: "first_subscription st i = Some sub \<and> CanTransitionTo sub StatusActive \<and>
    first_customer st (CustomerID sub) = Some customer \<and> 0 < active_count st (CustomerID sub)"
  with first_customer_set [of st "CustomerID sub" customer]
  have "HasActiveSubscription customer st" by (simp add: HasActiveSubscription_count)
  with h show "AssignSubscription st (Some i) now wr =
      (ErrorResponse StatusConflict ''Customer already has an active subscription'', st)"
    by (simp add: AssignSubscription_def)
next
  fix sub
  assume h: "first_subscription st i = Some sub \<and> 0 < active_count st (CustomerID sub)"
  have a: "HasActiveSubscription customer st"
    if "first_customer st (CustomerID sub) = Some customer" for customer
    using first_customer_set [OF that] h by (simp add: HasActiveSubscription_count)
  show "is_error (fst (AssignSubscription st (Some i) now wr))"
    using a h by (simp add: AssignSubscription_def is_error_def split: option.splits)
  show "snd (AssignSubscription st (Some i) now wr) = st"
    using a h by (simp add: AssignSubscription_def split: option.splits)
qed


theorem one_active_subscription_per_customer_witness:
  "wf_subscriptions example_busy_store
   \<and> (\<forall>c. active_count example_busy_store c \<le> 1)
   \<and> step example_busy_store
        (snd (UnassignSubscription example_busy_store (Some 1) (example_time 2 1) True))
   \<and> wf_subscriptions (snd (UnassignSubscription example_busy_store (Some 1) (example_time 2 1) True))
   \<and> (\<forall>c. active_count
              (snd (UnassignSubscription example_busy_store (Some 1) (example_time 2 1) True)) c \<le> 1)
   \<and> first_subscription example_busy_store 2 \<noteq> None
   \<and> 0 < active_count example_busy_store 1
   \<and> AssignSubscription example_busy_store (Some 2) (example_time 2 1) True =
        (ErrorResponse StatusConflict ''Customer already has an active subscription'',
         example_busy_store)"
proof -
  let ?st' = "snd (UnassignSubscription example_busy_store (Some 1) (example_time 2 1) True)"
  have s: "step example_busy_store ?st'" by (rule step.Unassign)
  have f: "first_subscription example_busy_store 2 \<noteq> None"
      "0 < active_count example_busy_store 1"
    by (simp_all add: first_subscription_def active_count_def example_busy_store_def
        example_store_def status_defs)
  have g: "first_subscription example_busy_store 2 =
        Some (the (first_subscription example_busy_store 2)) \<and>
      CanTransitionTo (the (first_subscription example_busy_store 2)) StatusActive \<and>
      first_customer example_busy_store
        (CustomerID (the (first_subscription example_busy_store 2))) =
         Some (the (first_customer example_busy_store 1)) \<and>
      0 < active_count example_busy_store
        (CustomerID (the (first_subscription example_busy_store 2)))"
    by (simp add: first_subscription_def first_customer_def active_count_def
        example_busy_store_def example_store_def CanTransitionTo_iff status_defs)
  note t = one_active_subscription_per_customer [OF example_busy_store_ok,
      of _ _ "example_time 2 1" True _ 2]
  from t s have "wf_subscriptions ?st' \<and> (\<forall>c. active_count ?st' c \<le> 1)" by blast
  moreover from t g have "AssignSubscription example_busy_store (Some 2) (example_time 2 1) True =
        (ErrorResponse StatusConflict ''Customer already has an active subscription'',
         example_busy_store)" by blast
  ultimately show ?thesis using example_busy_store_ok s f by simp
qed


section \<open>The status expired\<close>

lemma example_run_steps: "step\<^sup>*\<^sup>* example_store example_run"
proof -
  let ?st1 = "snd (RequestSubscription example_store (Some 2) (Some \<lparr>PackSKU = ''basic-1m''\<rparr>)
                (example_time 1 29) True)"
  let ?st2 = "snd (ApproveSubscription ?st1 (Some 1) (example_time 1 30) True)"
  let ?st3 = "snd (AssignSubscription ?st2 (Some 1) (example_time 1 31) True)"
  let ?st4 = "snd (UnassignSubscription ?st3 (Some 1) (example_time 2 1) True)"
  have "step example_store ?st1" by (rule step.Request)
  moreover have "step ?st1 ?st2" by (rule step.Approve)
  moreover have "step ?st2 ?st3" by (rule step.Assign)
  moreover have "step ?st3 ?st4" by (rule step.Unassign)
  ultimately have "step\<^sup>*\<^sup>* example_store ?st4" by simp
  then show ?thesis by (simp add: example_run_def Let_def)
qed

lemma example_run_eq:
  "example_run =
     example_store
       \<lparr>subscriptions :=
          [\<lparr>sub_ID = 1, CustomerID = 1, PackID = 1, Status = StatusInactive,
            RequestedAt = example_time 1 29, ApprovedAt = Some (example_time 1 30),
            AssignedAt = Some (example_time 1 31), ExpiresAt = Some (example_time 3 2),
            DeactivatedAt = Some (example_time 2 1)\<rparr>],
        subscriptions_seq := 2\<rparr>"
  by (simp add: example_run_def RequestSubscription_def ApproveSubscription_def
      AssignSubscription_def UnassignSubscription_def GetCurrentCustomer_def GetCurrentUser_def
      HasActiveSubscription_def first_pack_by_sku_def first_pack_def first_customer_def
      first_subscription_def create_subscription_def save_subscription_def new_subscription_def
      CalculateExpiry_def CanTransitionTo_iff example_store_def example_time_def status_defs
      AddDate_def Date_def norm_month_def next_month_def norm_day.simps daysIn_def isLeap_def
      Let_def)

text \<open>
  Claim C10. No request served by the subscription handlers stores the status
  \<^verbatim>\<open>expired\<close>: a row that has this status after a step was in the table, unchanged,
  before the step. So from a store without such rows, and in particular from a store
  without subscriptions, no sequence of requests reaches a store with a subscription of
  stored status \<^verbatim>\<open>expired\<close>.
\<close>

theorem expired_status_never_stored:
  "(step st st' \<longrightarrow>
      (\<forall>s\<in>set (subscriptions st'). Status s = StatusExpired \<longrightarrow> s \<in> set (subscriptions st)))
   \<and> (step\<^sup>*\<^sup>* st st' \<and> no_expired st \<longrightarrow> no_expired st')
   \<and> (subscriptions st = [] \<longrightarrow> no_expired st)"
proof (intro conjI impI ballI)
  fix s
  assume "step st st'" and "s \<in> set (subscriptions st')" and "Status s = StatusExpired"
  then show "s \<in> set (subscriptions st)"
    using expired_rows_effect [OF step_effect] by simp
next
  assume "step\<^sup>*\<^sup>* st st' \<and> no_expired st"
  then show "no_expired st'" by (elim conjE) (rule no_expired_steps)
next
  assume "subscriptions st = []"
  then show "no_expired st" by (simp add: no_expired_def)
qed

theorem expired_status_never_stored_witness:
  "subscriptions example_store = []
   \<and> no_expired example_store
   \<and> step\<^sup>*\<^sup>* example_store example_run
   \<and> no_expired example_run
   \<and> map Status (subscriptions example_run) = [StatusInactive]"
proof -
  have e: "subscriptions example_store = []" by (simp add: example_store_def)
  note t = expired_status_never_stored [of example_store example_run]
  from t e have n: "no_expired example_store" by simp
  from t n example_run_steps have "no_expired example_run" by simp
  with e n example_run_steps show ?thesis by (simp add: example_run_eq)
qed


section \<open>The expiry date set by AssignSubscription\<close>

lemma AssignSubscription_success:
  assumes "AssignSubscription st sid now wr = (SuccessResponse s' msg, st')"
  shows "\<exists>i sub pack. sid = Some i \<and> first_subscription st i = Some sub \<and>
           first_pack st (PackID sub) = Some pack \<and>
           s' = sub\<lparr>Status := StatusActive, AssignedAt := Some now,
                     ExpiresAt := Some (AddDate now 0 (ValidityMonths pack) 0)\<rparr> \<and>
           st' = save_subscription st s'"
  using assms
  by (auto simp add: AssignSubscription_def CalculateExpiry_def split: option.splits if_splits)

lemma first_subscription_save:
  "first_subscription st i = Some x \<Longrightarrow> sub_ID s = i \<Longrightarrow>
     first_subscription (save_subscription st s) i = Some s"
  unfolding first_subscription_def subscriptions_save
  by (simp add: find_save_same)

lemma AddDate_jan31:
  "year a = 2024 \<Longrightarrow> month a = 1 \<Longrightarrow> day a = 31 \<Longrightarrow>
     AddDate a 0 1 0 = a\<lparr>month := 3, day := 2\<rparr>"
  by (simp add: AddDate_def Date_def norm_month_def next_month_def norm_day.simps
      daysIn_def isLeap_def)

text \<open>
  Claim C3, as amended. A successful AssignSubscription stores status \<^verbatim>\<open>active\<close>,
  \<^verbatim>\<open>assignedAt = now\<close> and \<^verbatim>\<open>expiresAt = assignedAt.AddDate(0, ValidityMonths, 0)\<close>
  for the pack of the subscription. That date is the origin day in the target month when
  the day exists there; when it does not, the date is not clamped to the last day of the
  target month: the excess days roll over into the month after. For
  \<^verbatim>\<open>assignedAt\<close> = 2024-01-31 and a validity of one month, \<^verbatim>\<open>expiresAt\<close> is
  2024-03-02, at the same time of day.
\<close>

theorem assign_expiry_rolls_over:
  assumes "AssignSubscription st sid now wr = (SuccessResponse s' msg, st')"
    and "valid_time now"
  shows "(\<exists>pack.
      first_pack st (PackID s') = Some pack \<and>
      Status s' = StatusActive \<and> AssignedAt s' = Some now \<and>
      ExpiresAt s' = Some (AddDate now 0 (ValidityMonths pack) 0) \<and>
      first_subscription st' (sub_ID s') = Some s' \<and>
      AddDate now 0 (ValidityMonths pack) 0 =
        (case norm_month (year now) (month now + ValidityMonths pack) of (y', m') \<Rightarrow>
           if day now \<le> daysIn m' y' then now\<lparr>year := y', month := m'\<rparr>
           else (case next_month y' m' of (y'', m'') \<Rightarrow>
                   now\<lparr>year := y'', month := m'', day := day now - daysIn m' y'\<rparr>)) \<and>
      (year now = 2024 \<and> month now = 1 \<and> day now = 31 \<and> ValidityMonths pack = 1 \<longrightarrow>
         ExpiresAt s' = Some (now\<lparr>month := 3, day := 2\<rparr>)))
    \<and> (AssignedAt s = Some a \<and> year a = 2024 \<and> month a = 1 \<and> day a = 31 \<and>
         ValidityMonths p = 1 \<longrightarrow>
       CalculateExpiry s (Some p) = Some (s\<lparr>ExpiresAt := Some (a\<lparr>month := 3, day := 2\<rparr>)\<rparr>))"
proof -
  from AssignSubscription_success [OF assms(1)] obtain i sub pack where
    sub: "first_subscription st i = Some sub" and
    pack: "first_pack st (PackID sub) = Some pack" and
    s': "s' = sub\<lparr>Status := StatusActive, AssignedAt := Some now,
                   ExpiresAt := Some (AddDate now 0 (ValidityMonths pack) 0)\<rparr>" and
    st': "st' = save_subscription st s'"
    by blast
  have id: "sub_ID s' = i" using first_subscription_set [OF sub] s' by simp
  have f: "first_subscription st' (sub_ID s') = Some s'"
    unfolding st' id using sub id by (rule first_subscription_save)
  have j: "year now = 2024 \<and> month now = 1 \<and> day now = 31 \<and> ValidityMonths pack = 1 \<longrightarrow>
         ExpiresAt s' = Some (now\<lparr>month := 3, day := 2\<rparr>)"
    using s' by (simp add: AddDate_jan31)
  have c: "AssignedAt s = Some a \<and> year a = 2024 \<and> month a = 1 \<and> day a = 31 \<and>
         ValidityMonths p = 1 \<longrightarrow>
       CalculateExpiry s (Some p) = Some (s\<lparr>ExpiresAt := Some (a\<lparr>month := 3, day := 2\<rparr>)\<rparr>)"
    by (simp add: CalculateExpiry_def AddDate_jan31)
  show ?thesis
  proof (intro exI [of _ pack] conjI)
    show "AssignedAt s = Some a \<and> year a = 2024 \<and> month a = 1 \<and> day a = 31 \<and>
         ValidityMonths p = 1 \<longrightarrow>
       CalculateExpiry s (Some p) = Some (s\<lparr>ExpiresAt := Some (a\<lparr>month := 3, day := 2\<rparr>)\<rparr>)"
      by (rule c)
    show "first_pack st (PackID s') = Some pack" using pack s' by simp
    show "Status s' = StatusActive" using s' by simp
    show "AssignedAt s' = Some now" using s' by simp
    show "ExpiresAt s' = Some (AddDate now 0 (ValidityMonths pack) 0)" using s' by simp
    show "first_subscription st' (sub_ID s') = Some s'" by (rule f)
    show "AddDate now 0 (ValidityMonths pack) 0 =
        (case norm_month (year now) (month now + ValidityMonths pack) of (y', m') \<Rightarrow>
           if day now \<le> daysIn m' y' then now\<lparr>year := y', month := m'\<rparr>
           else (case next_month y' m' of (y'', m'') \<Rightarrow>
                   now\<lparr>year := y'', month := m'', day := day now - daysIn m' y'\<rparr>))"
      by (rule AddDate_months [OF assms(2)])
    show "year now = 2024 \<and> month now = 1 \<and> day now = 31 \<and> ValidityMonths pack = 1 \<longrightarrow>
         ExpiresAt s' = Some (now\<lparr>month := 3, day := 2\<rparr>)" by (rule j)
  qed
qed

theorem assign_expiry_rolls_over_witness:
  "AssignSubscription example_approved_store (Some 1) (example_time 1 31) True =
     (SuccessResponse
        \<lparr>sub_ID = 1, CustomerID = 1, PackID = 1, Status = StatusActive,
         RequestedAt = example_time 1 29, ApprovedAt = Some (example_time 1 30),
         AssignedAt = Some (example_time 1 31), ExpiresAt = Some (example_time 3 2),
         DeactivatedAt = None\<rparr>
        ''Subscription assigned successfully'',
      example_approved_store
        \<lparr>subscriptions :=
           [\<lparr>sub_ID = 1, CustomerID = 1, PackID = 1, Status = StatusActive,
             RequestedAt = example_time 1 29, ApprovedAt = Some (example_time 1 30),
             AssignedAt = Some (example_time 1 31), ExpiresAt = Some (example_time 3 2),
             DeactivatedAt = None\<rparr>]\<rparr>)
   \<and> valid_time (example_time 1 31)
   \<and> first_subscription
        (snd (AssignSubscription example_approved_store (Some 1) (example_time 1 31) True)) 1 =
       Some (\<lparr>sub_ID = 1, CustomerID = 1, PackID = 1, Status = StatusActive,
         RequestedAt = example_time 1 29, ApprovedAt = Some (example_time 1 30),
         AssignedAt = Some (example_time 1 31), ExpiresAt = Some (example_time 3 2),
         DeactivatedAt = None\<rparr>)"
proof -
  let ?s = "\<lparr>sub_ID = 1, CustomerID = 1, PackID = 1, Status = StatusActive,
         RequestedAt = example_time 1 29, ApprovedAt = Some (example_time 1 30),
         AssignedAt = Some (example_time 1 31), ExpiresAt = Some (example_time 3 2),
         DeactivatedAt = None\<rparr>"
  let ?st = "example_approved_store\<lparr>subscriptions := [?s]\<rparr>"
  have a: "AssignSubscription example_approved_store (Some 1) (example_time 1 31) True =
     (SuccessResponse ?s ''Subscription assigned successfully'', ?st)"
    by (simp add: AssignSubscription_def example_approved_store_def example_store_def
      HasActiveSubscription_def first_pack_def first_customer_def first_subscription_def
      save_subscription_def CalculateExpiry_def CanTransitionTo_iff example_time_def status_defs
      AddDate_def Date_def norm_month_def next_month_def norm_day.simps daysIn_def isLeap_def)
  have v: "valid_time (example_time 1 31)"
    by (simp add: valid_time_def example_time_def daysIn_def)
  from assign_expiry_rolls_over [OF a v]
  have "first_subscription ?st (sub_ID ?s) = Some ?s" by blast
  with a v show ?thesis by simp
qed

text \<open>
  The claim as first stated expects 2024-02-29 for \<^verbatim>\<open>assignedAt\<close> = 2024-01-31 and a
  validity of one month. \<^verbatim>\<open>CalculateExpiry\<close> yields 2024-03-02.
\<close>

theorem CalculateExpiry_clamp_counterexample:
  "map_option ExpiresAt
     (CalculateExpiry
        \<lparr>sub_ID = 1, CustomerID = 1, PackID = 1, Status = StatusActive,
         RequestedAt = \<lparr>year = 2024, month = 1, day = 29, nsec = 0\<rparr>,
         ApprovedAt = Some \<lparr>year = 2024, month = 1, day = 30, nsec = 0\<rparr>,
         AssignedAt = Some \<lparr>year = 2024, month = 1, day = 31, nsec = 0\<rparr>,
         ExpiresAt = None, DeactivatedAt = None\<rparr>
        (Some \<lparr>pack_ID = 1, pack_Name = ''Basic'', Description = [], SKU = ''basic-1m'',
               ValidityMonths = 1, pack_DeletedAt = None\<rparr>))
     = Some (Some \<lparr>year = 2024, month = 3, day = 2, nsec = 0\<rparr>)
   \<and> \<lparr>year = 2024, month = 3, day = 2, nsec = 0\<rparr> \<noteq> \<lparr>year = 2024, month = 2, day = 29, nsec = 0\<rparr>"
  by (simp add: CalculateExpiry_def AddDate_def Date_def norm_month_def next_month_def
      norm_day.simps daysIn_def isLeap_def)


section \<open>The derived expiry check\<close>

text \<open>
  Claim C4, as amended. \<^verbatim>\<open>IsExpired\<close> answers true exactly when \<^verbatim>\<open>ExpiresAt\<close> is
  set and lies before the evaluation time. The stored status plays no part: changing
  it never changes the answer, so a subscription of any status with a past expiry is
  reported expired.
\<close>

theorem IsExpired_by_time_only:
  "IsExpired s now = (\<exists>e. ExpiresAt s = Some e \<and> Before e now)
   \<and> IsExpired (s\<lparr>Status := x\<rparr>) now = IsExpired s now"
  by (auto simp add: IsExpired_def split: option.splits)

text \<open>
  The claim as first stated asks for status \<^verbatim>\<open>active\<close> as well. The subscription of
  the worked example, unassigned on 1 February 2024 and so of status \<^verbatim>\<open>inactive\<close>,
  has its expiry on 2 March 2024: on 1 January 2025 it is reported expired all the same.
\<close>

theorem IsExpired_status_counterexample:
  "subscriptions example_run =
     [\<lparr>sub_ID = 1, CustomerID = 1, PackID = 1, Status = StatusInactive,
       RequestedAt = example_time 1 29, ApprovedAt = Some (example_time 1 30),
       AssignedAt = Some (example_time 1 31), ExpiresAt = Some (example_time 3 2),
       DeactivatedAt = Some (example_time 2 1)\<rparr>]
   \<and> \<not> (IsExpired
         \<lparr>sub_ID = 1, CustomerID = 1, PackID = 1, Status = StatusInactive,
          RequestedAt = example_time 1 29, ApprovedAt = Some (example_time 1 30),
          AssignedAt = Some (example_time 1 31), ExpiresAt = Some (example_time 3 2),
          DeactivatedAt = Some (example_time 2 1)\<rparr>
         \<lparr>year = 2025, month = 1, day = 1, nsec = 0\<rparr>
       = (StatusInactive = StatusActive \<and>
          Before (example_time 3 2) \<lparr>year = 2025, month = 1, day = 1, nsec = 0\<rparr>))"
  using status_distinct
  by (simp add: example_run_eq IsExpired_def Before_def example_time_def)

section \<open>Requesting a subscription\<close>

lemma create_requested_row:
  "create_subscription st (new_subscription (cust_ID customer) (pack_ID pack) now) =
     (requested_row st customer pack now,
      st\<lparr>subscriptions := subscriptions st @ [requested_row st customer pack now],
         subscriptions_seq := Suc (subscriptions_seq st)\<rparr>)"
  by (simp add: create_subscription_def new_subscription_def requested_row_def Let_def)

lemma RequestSubscription_failure_unchanged:
  "is_error (fst (RequestSubscription st userID req now wr)) \<Longrightarrow>
     snd (RequestSubscription st userID req now wr) = st"
  by (auto simp add: RequestSubscription_def is_error_def split: option.splits if_splits prod.splits)

lemma CreateSubscription_failure_unchanged:
  "is_error (fst (CreateSubscription st req now wr)) \<Longrightarrow>
     snd (CreateSubscription st req now wr) = st"
  by (auto simp add: CreateSubscription_def is_error_def split: option.splits if_splits prod.splits)

text \<open>
  Claim C5. For an authenticated customer and a bound request body, RequestSubscription
  (of either API) answers 409 and writes nothing when the customer has a subscription of
  status \<^verbatim>\<open>active\<close>; otherwise it answers 400 and writes nothing when no pack has
  the given SKU; otherwise, when the store accepts the insert, it appends exactly one
  row for that customer, of status \<^verbatim>\<open>requested\<close>, with \<^verbatim>\<open>requestedAt = now\<close>
  and no other timestamp. CreateSubscription, for an existing customer, makes the same
  checks in the other order: 404 when no pack has the SKU, 409 when the customer has an
  active subscription, and the same single row otherwise. No failure of either handler
  changes the store.
\<close>

theorem request_subscription_outcomes:
  "(GetCurrentCustomer st userID = Some customer \<and> HasActiveSubscription customer st \<longrightarrow>
      RequestSubscription st userID (Some r) now wr =
        (ErrorResponse StatusConflict ''Customer already has an active subscription'', st))
   \<and> (GetCurrentCustomer st userID = Some customer \<and> \<not> HasActiveSubscription customer st \<and>
        first_pack_by_sku st (PackSKU r) = None \<longrightarrow>
      RequestSubscription st userID (Some r) now wr =
        (ErrorResponse StatusBadRequest ''Invalid subscription pack'', st))
   \<and> (GetCurrentCustomer st userID = Some customer \<and> \<not> HasActiveSubscription customer st \<and>
        first_pack_by_sku st (PackSKU r) = Some pack \<longrightarrow>
      RequestSubscription st userID (Some r) now True =
        (SuccessResponse (requested_row st customer pack now)
           ''Subscription request created successfully'',
         st\<lparr>subscriptions := subscriptions st @ [requested_row st customer pack now],
            subscriptions_seq := Suc (subscriptions_seq st)\<rparr>))
   \<and> (is_error (fst (RequestSubscription st userID req now wr)) \<longrightarrow>
        snd (RequestSubscription st userID req now wr) = st)
   \<and> SDK_RequestSubscription st userID req now wr = RequestSubscription st userID req now wr
   \<and> (first_customer st (req_CustomerID cr) = Some customer \<and>
        first_pack_by_sku st (req_PackSKU cr) = None \<longrightarrow>
      CreateSubscription st (Some cr) now wr =
        (ErrorResponse StatusNotFound ''Subscription pack not found'', st))
   \<and> (first_customer st (req_CustomerID cr) = Some customer \<and>
        first_pack_by_sku st (req_PackSKU cr) = Some pack \<and>
        HasActiveSubscription customer st \<longrightarrow>
      CreateSubscription st (Some cr) now wr =
        (ErrorResponse StatusConflict ''Customer already has an active subscription'', st))
   \<and> (first_customer st (req_CustomerID cr) = Some customer \<and>
        first_pack_by_sku st (req_PackSKU cr) = Some pack \<and>
        \<not> HasActiveSubscription customer st \<longrightarrow>
      CreateSubscription st (Some cr) now True =
        (SuccessResponse (requested_row st customer pack now)
           ''Subscription created successfully'',
         st\<lparr>subscriptions := subscriptions st @ [requested_row st customer pack now],
            subscriptions_seq := Suc (subscriptions_seq st)\<rparr>))
   \<and> (is_error (fst (CreateSubscription st creq now wr)) \<longrightarrow>
        snd (CreateSubscription st creq now wr) = st)"
proof (intro conjI impI)
  show "SDK_RequestSubscription st userID req now wr = RequestSubscription st userID req now wr"
    by (rule SDK_RequestSubscription_eq)
  show "snd (RequestSubscription st userID req now wr) = st"
    if "is_error (fst (RequestSubscription st userID req now wr))"
    using that by (rule RequestSubscription_failure_unchanged)
  show "snd (CreateSubscription st creq now wr) = st"
    if "is_error (fst (CreateSubscription st creq now wr))"
    using that by (rule CreateSubscription_failure_unchanged)
qed (simp_all add: RequestSubscription_def CreateSubscription_def create_requested_row)


lemma example_lookups:
  "GetCurrentCustomer example_store (Some 2) =
     Some \<lparr>cust_ID = 1, UserID = 2, cust_Name = ''Ann'', Phone = [], cust_DeletedAt = None\<rparr>"
  "GetCurrentCustomer example_busy_store (Some 2) =
     Some \<lparr>cust_ID = 1, UserID = 2, cust_Name = ''Ann'', Phone = [], cust_DeletedAt = None\<rparr>"
  "first_customer example_store 1 =
     Some \<lparr>cust_ID = 1, UserID = 2, cust_Name = ''Ann'', Phone = [], cust_DeletedAt = None\<rparr>"
  "first_customer example_busy_store 1 =
     Some \<lparr>cust_ID = 1, UserID = 2, cust_Name = ''Ann'', Phone = [], cust_DeletedAt = None\<rparr>"
  "first_pack_by_sku example_store ''basic-1m'' =
     Some \<lparr>pack_ID = 1, pack_Name = ''Basic'', Description = [], SKU = ''basic-1m'',
           ValidityMonths = 1, pack_DeletedAt = None\<rparr>"
  "first_pack_by_sku example_busy_store ''basic-1m'' =
     Some \<lparr>pack_ID = 1, pack_Name = ''Basic'', Description = [], SKU = ''basic-1m'',
           ValidityMonths = 1, pack_DeletedAt = None\<rparr>"
  "first_pack_by_sku example_store ''gold'' = None"
  by (simp_all add: GetCurrentCustomer_def GetCurrentUser_def first_customer_def
      first_pack_by_sku_def example_busy_store_def example_store_def)

lemma example_active:
  "HasActiveSubscription
     \<lparr>cust_ID = 1, UserID = 2, cust_Name = ''Ann'', Phone = [], cust_DeletedAt = None\<rparr>
     example_busy_store"
  "\<not> HasActiveSubscription
     \<lparr>cust_ID = 1, UserID = 2, cust_Name = ''Ann'', Phone = [], cust_DeletedAt = None\<rparr>
     example_store"
  by (simp_all add: HasActiveSubscription_def example_busy_store_def example_store_def
      status_defs)

theorem request_subscription_outcomes_witness:
  "RequestSubscription example_busy_store (Some 2) (Some \<lparr>PackSKU = ''basic-1m''\<rparr>)
     (example_time 2 1) True =
     (ErrorResponse StatusConflict ''Customer already has an active subscription'',
      example_busy_store)
   \<and> RequestSubscription example_store (Some 2) (Some \<lparr>PackSKU = ''gold''\<rparr>)
       (example_time 1 29) True =
     (ErrorResponse StatusBadRequest ''Invalid subscription pack'', example_store)
   \<and> subscriptions (snd (RequestSubscription example_store (Some 2)
         (Some \<lparr>PackSKU = ''basic-1m''\<rparr>) (example_time 1 29) True)) =
     [\<lparr>sub_ID = 1, CustomerID = 1, PackID = 1, Status = StatusRequested,
       RequestedAt = example_time 1 29, ApprovedAt = None, AssignedAt = None,
       ExpiresAt = None, DeactivatedAt = None\<rparr>]
   \<and> CreateSubscription example_busy_store
       (Some \<lparr>req_CustomerID = 1, req_PackSKU = ''basic-1m''\<rparr>) (example_time 2 1) True =
     (ErrorResponse StatusConflict ''Customer already has an active subscription'',
      example_busy_store)
   \<and> CreateSubscription example_store
       (Some \<lparr>req_CustomerID = 1, req_PackSKU = ''gold''\<rparr>) (example_time 1 29) True =
     (ErrorResponse StatusNotFound ''Subscription pack not found'', example_store)
   \<and> subscriptions (snd (CreateSubscription example_store
         (Some \<lparr>req_CustomerID = 1, req_PackSKU = ''basic-1m''\<rparr>) (example_time 1 29) True)) =
     [\<lparr>sub_ID = 1, CustomerID = 1, PackID = 1, Status = StatusRequested,
       RequestedAt = example_time 1 29, ApprovedAt = None, AssignedAt = None,
       ExpiresAt = None, DeactivatedAt = None\<rparr>]"
proof -
  let ?ann = "\<lparr>cust_ID = 1, UserID = 2, cust_Name = ''Ann'', Phone = [], cust_DeletedAt = None\<rparr>"
  let ?basic = "\<lparr>pack_ID = 1, pack_Name = ''Basic'', Description = [], SKU = ''basic-1m'',
           ValidityMonths = 1, pack_DeletedAt = None\<rparr>"
  note busy = request_subscription_outcomes [of example_busy_store "Some 2" ?ann
      "\<lparr>PackSKU = ''basic-1m''\<rparr>" "example_time 2 1" True ?basic _
      "\<lparr>req_CustomerID = 1, req_PackSKU = ''basic-1m''\<rparr>"]
  note gold = request_subscription_outcomes [of example_store "Some 2" ?ann
      "\<lparr>PackSKU = ''gold''\<rparr>" "example_time 1 29" True _ _
      "\<lparr>req_CustomerID = 1, req_PackSKU = ''gold''\<rparr>"]
  note fresh = request_subscription_outcomes [of example_store "Some 2" ?ann
      "\<lparr>PackSKU = ''basic-1m''\<rparr>" "example_time 1 29" True ?basic _
      "\<lparr>req_CustomerID = 1, req_PackSKU = ''basic-1m''\<rparr>"]
  have 1: "RequestSubscription example_busy_store (Some 2) (Some \<lparr>PackSKU = ''basic-1m''\<rparr>)
     (example_time 2 1) True =
     (ErrorResponse StatusConflict ''Customer already has an active subscription'',
      example_busy_store)"
    using busy example_lookups example_active by simp
  have 2: "RequestSubscription example_store (Some 2) (Some \<lparr>PackSKU = ''gold''\<rparr>)
       (example_time 1 29) True =
     (ErrorResponse StatusBadRequest ''Invalid subscription pack'', example_store)"
    using gold example_lookups example_active by simp
  have 3: "RequestSubscription example_store (Some 2)
         (Some \<lparr>PackSKU = ''basic-1m''\<rparr>) (example_time 1 29) True =
     (SuccessResponse (requested_row example_store ?ann ?basic (example_time 1 29))
           ''Subscription request created successfully'',
         example_store\<lparr>subscriptions := subscriptions example_store @
             [requested_row example_store ?ann ?basic (example_time 1 29)],
            subscriptions_seq := Suc (subscriptions_seq example_store)\<rparr>)"
    using fresh example_lookups example_active by simp
  have 4: "CreateSubscription example_busy_store
       (Some \<lparr>req_CustomerID = 1, req_PackSKU = ''basic-1m''\<rparr>) (example_time 2 1) True =
     (ErrorResponse StatusConflict ''Customer already has an active subscription'',
      example_busy_store)"
    using busy example_lookups example_active by simp
  have 5: "CreateSubscription example_store
       (Some \<lparr>req_CustomerID = 1, req_PackSKU = ''gold''\<rparr>) (example_time 1 29) True =
     (ErrorResponse StatusNotFound ''Subscription pack not found'', example_store)"
    using gold example_lookups example_active by simp
  have 6: "CreateSubscription example_store
         (Some \<lparr>req_CustomerID = 1, req_PackSKU = ''basic-1m''\<rparr>) (example_time 1 29) True =
     (SuccessResponse (requested_row example_store ?ann ?basic (example_time 1 29))
           ''Subscription created successfully'',
         example_store\<lparr>subscriptions := subscriptions example_store @
             [requested_row example_store ?ann ?basic (example_time 1 29)],
            subscriptions_seq := Suc (subscriptions_seq example_store)\<rparr>)"
    using fresh example_lookups example_active by simp
  have r: "subscriptions example_store @
             [requested_row example_store ?ann ?basic (example_time 1 29)] =
     [\<lparr>sub_ID = 1, CustomerID = 1, PackID = 1, Status = StatusRequested,
       RequestedAt = example_time 1 29, ApprovedAt = None, AssignedAt = None,
       ExpiresAt = None, DeactivatedAt = None\<rparr>]"
    by (simp add: requested_row_def example_store_def)
  show ?thesis
    unfolding 1 2 3 4 5 6 using r by simp
qed


section \<open>Unassigning and deactivating\<close>

lemma find_append_split:
  "find P (xs @ ys) = (case find P xs of None \<Rightarrow> find P ys | Some x \<Rightarrow> Some x)"
  by (induction xs) simp_all

lemma save_last_row:
  "\<forall>x\<in>set xs. key x \<noteq> k \<Longrightarrow> key s = k \<Longrightarrow>
     map (\<lambda>r. if key r = k then s' else r) (xs @ [s]) = xs @ [s']"
  by (induction xs) simp_all

lemma GetActiveSubscription_None:
  "(GetActiveSubscription c st = None) = (\<not> HasActiveSubscription c st)"
  unfolding GetActiveSubscription_def HasActiveSubscription_def find_None_iff
  by (simp add: filter_empty_conv) blast

lemma GetCurrentCustomer_set:
  "GetCurrentCustomer st userID = Some c \<Longrightarrow> c \<in> set (customers st) \<and> cust_DeletedAt c = None"
  unfolding GetCurrentCustomer_def
  by (auto split: option.splits dest: find_Some_set)

lemma first_pack_by_sku_set:
  "first_pack_by_sku st sku = Some p \<Longrightarrow> p \<in> set (packs st) \<and> pack_DeletedAt p = None"
  unfolding first_pack_by_sku_def by (drule find_Some_set) simp

lemma find_exists: "x \<in> set xs \<Longrightarrow> P x \<Longrightarrow> \<exists>y. find P xs = Some y"
  by (cases "find P xs") (simp_all add: find_None_iff)

lemma first_customer_exists:
  assumes "c \<in> set (customers st)" and "cust_DeletedAt c = None"
  shows "\<exists>c'. first_customer st (cust_ID c) = Some c' \<and> cust_ID c' = cust_ID c"
proof -
  from find_exists [of c "customers st" "\<lambda>x. cust_ID x = cust_ID c \<and> cust_DeletedAt x = None"] assms
  obtain c' where "first_customer st (cust_ID c) = Some c'"
    unfolding first_customer_def by auto
  with first_customer_set [OF this] show ?thesis by simp
qed

lemma first_pack_exists:
  assumes "p \<in> set (packs st)" and "pack_DeletedAt p = None"
  shows "\<exists>p'. first_pack st (pack_ID p) = Some p'"
  using find_exists [of p "packs st" "\<lambda>x. pack_ID x = pack_ID p \<and> pack_DeletedAt x = None"] assms
  unfolding first_pack_def by auto


lemma unchanged_tables:
  "users (save_subscription st s) = users st"
  "customers (save_subscription st s) = customers st"
  "packs (save_subscription st s) = packs st"
  by (simp_all add: save_subscription_def)

lemma lookups_save:
  "GetCurrentCustomer (save_subscription st s) userID = GetCurrentCustomer st userID"
  "first_customer (save_subscription st s) i = first_customer st i"
  "first_pack (save_subscription st s) j = first_pack st j"
  by (simp_all add: GetCurrentCustomer_def GetCurrentUser_def first_customer_def first_pack_def
      unchanged_tables cong: option.case_cong)

lemma lookups_append:
  "GetCurrentCustomer (st\<lparr>subscriptions := xs, subscriptions_seq := n\<rparr>) userID =
     GetCurrentCustomer st userID"
  "first_customer (st\<lparr>subscriptions := xs, subscriptions_seq := n\<rparr>) i = first_customer st i"
  "first_pack (st\<lparr>subscriptions := xs, subscriptions_seq := n\<rparr>) j = first_pack st j"
  by (simp_all add: GetCurrentCustomer_def GetCurrentUser_def first_customer_def first_pack_def
      cong: option.case_cong)

lemma with_row_simps:
  "subscriptions (with_row st s) = subscriptions st @ [s]"
  "GetCurrentCustomer (with_row st s) userID = GetCurrentCustomer st userID"
  "first_customer (with_row st s) i = first_customer st i"
  "first_pack (with_row st s) j = first_pack st j"
  by (simp_all add: with_row_def lookups_append)

lemma with_row_save:
  assumes "wf_subscriptions st" and "sub_ID s = subscriptions_seq st" and "sub_ID s' = sub_ID s"
  shows "save_subscription (with_row st s) s' = with_row st s'"
proof -
  have "\<forall>x\<in>set (subscriptions st). sub_ID x \<noteq> sub_ID s'"
    using assms by (auto simp add: wf_subscriptions_def list_all_iff)
  then have "map (\<lambda>r. if sub_ID r = sub_ID s' then s' else r) (subscriptions st @ [s]) =
      subscriptions st @ [s']"
    using assms(3) [symmetric] by (rule save_last_row)
  then show ?thesis
    by (simp add: save_subscription_def with_row_def)
qed

lemma with_row_first:
  assumes "wf_subscriptions st" and "sub_ID s = subscriptions_seq st"
  shows "first_subscription (with_row st s) (subscriptions_seq st) = Some s"
proof -
  have "\<forall>x\<in>set (subscriptions st). sub_ID x \<noteq> subscriptions_seq st"
    using assms by (auto simp add: wf_subscriptions_def list_all_iff)
  then show ?thesis
    unfolding first_subscription_def with_row_simps using assms(2) by (rule find_append_new)
qed

lemma with_row_active:
  assumes "\<not> HasActiveSubscription c st"
  shows "HasActiveSubscription c (with_row st s) = (CustomerID s = cust_ID c \<and> Status s = ''active'')"
    and "GetActiveSubscription c (with_row st s) =
      (if CustomerID s = cust_ID c \<and> Status s = ''active'' then Some s else None)"
  using assms GetActiveSubscription_None [of c st]
  by (simp_all add: HasActiveSubscription_def GetActiveSubscription_def with_row_simps
      find_append_split)


lemma ApproveSubscription_ok:
  "first_subscription st i = Some sub \<Longrightarrow> CanTransitionTo sub StatusApproved \<Longrightarrow>
     ApproveSubscription st (Some i) now True =
       (SuccessResponse (sub\<lparr>Status := StatusApproved, ApprovedAt := Some now\<rparr>)
          ''Subscription approved successfully'',
        save_subscription st (sub\<lparr>Status := StatusApproved, ApprovedAt := Some now\<rparr>))"
  by (simp add: ApproveSubscription_def Let_def)

lemma AssignSubscription_ok:
  "first_subscription st i = Some sub \<Longrightarrow> CanTransitionTo sub StatusActive \<Longrightarrow>
   first_customer st (CustomerID sub) = Some c \<Longrightarrow> \<not> HasActiveSubscription c st \<Longrightarrow>
   first_pack st (PackID sub) = Some p \<Longrightarrow>
     AssignSubscription st (Some i) now True =
       (SuccessResponse
          (sub\<lparr>Status := StatusActive, AssignedAt := Some now,
                ExpiresAt := Some (AddDate now 0 (ValidityMonths p) 0)\<rparr>)
          ''Subscription assigned successfully'',
        save_subscription st
          (sub\<lparr>Status := StatusActive, AssignedAt := Some now,
                ExpiresAt := Some (AddDate now 0 (ValidityMonths p) 0)\<rparr>))"
  by (simp add: AssignSubscription_def CalculateExpiry_def)

lemma UnassignSubscription_ok:
  "first_subscription st i = Some sub \<Longrightarrow> Status sub = StatusActive \<Longrightarrow>
     UnassignSubscription st (Some i) now True =
       (SuccessResponse (sub\<lparr>Status := StatusInactive, DeactivatedAt := Some now\<rparr>)
          ''Subscription unassigned successfully'',
        save_subscription st (sub\<lparr>Status := StatusInactive, DeactivatedAt := Some now\<rparr>))"
  by (simp add: UnassignSubscription_def Let_def)

lemma DeactivateSubscription_ok:
  "GetCurrentCustomer st userID = Some c \<Longrightarrow> GetActiveSubscription c st = Some sub \<Longrightarrow>
     DeactivateSubscription st userID now True =
       (SuccessResponse (sub\<lparr>Status := StatusInactive, DeactivatedAt := Some now\<rparr>)
          ''Subscription deactivated successfully'',
        save_subscription st (sub\<lparr>Status := StatusInactive, DeactivatedAt := Some now\<rparr>))"
  by (simp add: DeactivateSubscription_def Let_def)

lemma UnassignSubscription_failure_unchanged:
  "is_error (fst (UnassignSubscription st sid now wr)) \<Longrightarrow>
     snd (UnassignSubscription st sid now wr) = st"
  by (auto simp add: UnassignSubscription_def is_error_def Let_def split: option.splits if_splits)

lemma DeactivateSubscription_failure_unchanged:
  "is_error (fst (DeactivateSubscription st userID now wr)) \<Longrightarrow>
     snd (DeactivateSubscription st userID now wr) = st"
  by (auto simp add: DeactivateSubscription_def is_error_def Let_def split: option.splits if_splits)

lemma lifecycle_eq:
  assumes wf: "wf_subscriptions st"
    and cust: "GetCurrentCustomer st userID = Some customer"
    and na: "\<not> HasActiveSubscription customer st"
    and pk: "first_pack_by_sku st (PackSKU r) = Some pack"
  shows "\<exists>e. lifecycle st userID r t1 t2 t3 =
      with_row st
        \<lparr>sub_ID = subscriptions_seq st, CustomerID = cust_ID customer, PackID = pack_ID pack,
         Status = StatusActive, RequestedAt = t1, ApprovedAt = Some t2, AssignedAt = Some t3,
         ExpiresAt = Some e, DeactivatedAt = None\<rparr>"
proof -
  let ?id = "subscriptions_seq st"
  let ?s1 = "requested_row st customer pack t1"
  let ?s2 = "?s1\<lparr>Status := StatusApproved, ApprovedAt := Some t2\<rparr>"
  have id1: "sub_ID ?s1 = ?id" by (simp add: requested_row_def)
  have st1: "snd (RequestSubscription st userID (Some r) t1 True) = with_row st ?s1"
    using cust na pk
    by (simp add: RequestSubscription_def create_requested_row with_row_def)
  have f1: "first_subscription (with_row st ?s1) ?id = Some ?s1"
    using wf id1 by (rule with_row_first)
  have c1: "CanTransitionTo ?s1 StatusApproved"
    by (simp add: CanTransitionTo_iff requested_row_def)
  have st2: "snd (ApproveSubscription (with_row st ?s1) (Some ?id) t2 True) = with_row st ?s2"
    using ApproveSubscription_ok [OF f1 c1, of t2] with_row_save [OF wf id1, of ?s2]
    by simp
  have f2: "first_subscription (with_row st ?s2) ?id = Some ?s2"
    using wf by (intro with_row_first) (simp_all add: requested_row_def)
  have c2: "CanTransitionTo ?s2 StatusActive"
    by (simp add: CanTransitionTo_iff)
  from first_customer_exists GetCurrentCustomer_set [OF cust]
  obtain c' where c': "first_customer st (cust_ID customer) = Some c'" "cust_ID c' = cust_ID customer"
    by blast
  from first_pack_exists first_pack_by_sku_set [OF pk]
  obtain p' where p': "first_pack st (pack_ID pack) = Some p'"
    by blast
  let ?s3 = "?s2\<lparr>Status := StatusActive, AssignedAt := Some t3,
                   ExpiresAt := Some (AddDate t3 0 (ValidityMonths p') 0)\<rparr>"
  have na': "\<not> HasActiveSubscription c' st"
    using na c'(2) by (simp add: HasActiveSubscription_def)
  have na2: "\<not> HasActiveSubscription c' (with_row st ?s2)"
    using with_row_active(1) [OF na', of ?s2] status_distinct by (simp add: status_defs)
  have st3: "snd (AssignSubscription (with_row st ?s2) (Some ?id) t3 True) = with_row st ?s3"
    using AssignSubscription_ok [OF f2 c2 _ na2, of p' t3] c' p'
      with_row_save [OF wf, of ?s2 ?s3]
    by (simp add: with_row_simps requested_row_def)
  have "lifecycle st userID r t1 t2 t3 = with_row st ?s3"
    by (simp add: lifecycle_def st1 st2 st3)
  then show ?thesis
    by (intro exI [of _ "AddDate t3 0 (ValidityMonths p') 0"]) (simp add: requested_row_def)
qed


lemma first_subscription_save_other:
  "j \<noteq> sub_ID s \<Longrightarrow> first_subscription (save_subscription st s) j = first_subscription st j"
  unfolding first_subscription_def subscriptions_save
  by (rule find_save_other) simp_all

lemma lifecycle_end:
  assumes wf: "wf_subscriptions st"
    and cust: "GetCurrentCustomer st userID = Some customer"
    and na: "\<not> HasActiveSubscription customer st"
    and pk: "first_pack_by_sku st (PackSKU r) = Some pack"
  shows "\<exists>e.
      snd (UnassignSubscription (lifecycle st userID r t1 t2 t3) (Some (subscriptions_seq st))
             t4 True) =
        with_row st
          \<lparr>sub_ID = subscriptions_seq st, CustomerID = cust_ID customer, PackID = pack_ID pack,
           Status = StatusInactive, RequestedAt = t1, ApprovedAt = Some t2,
           AssignedAt = Some t3, ExpiresAt = Some e, DeactivatedAt = Some t4\<rparr> \<and>
      snd (DeactivateSubscription (lifecycle st userID r t1 t2 t3) userID t4 True) =
        with_row st
          \<lparr>sub_ID = subscriptions_seq st, CustomerID = cust_ID customer, PackID = pack_ID pack,
           Status = StatusInactive, RequestedAt = t1, ApprovedAt = Some t2,
           AssignedAt = Some t3, ExpiresAt = Some e, DeactivatedAt = Some t4\<rparr>"
proof -
  from lifecycle_eq [OF assms, of t1 t2 t3] obtain e where
    l: "lifecycle st userID r t1 t2 t3 =
      with_row st
        \<lparr>sub_ID = subscriptions_seq st, CustomerID = cust_ID customer, PackID = pack_ID pack,
         Status = StatusActive, RequestedAt = t1, ApprovedAt = Some t2, AssignedAt = Some t3,
         ExpiresAt = Some e, DeactivatedAt = None\<rparr>"
    by (elim exE)
  let ?s3 = "\<lparr>sub_ID = subscriptions_seq st, CustomerID = cust_ID customer,
         PackID = pack_ID pack, Status = StatusActive, RequestedAt = t1, ApprovedAt = Some t2,
         AssignedAt = Some t3, ExpiresAt = Some e, DeactivatedAt = None\<rparr>"
  let ?s4 = "?s3\<lparr>Status := StatusInactive, DeactivatedAt := Some t4\<rparr>"
  have f3: "first_subscription (with_row st ?s3) (subscriptions_seq st) = Some ?s3"
    using wf by (intro with_row_first) simp_all
  have sv: "save_subscription (with_row st ?s3) ?s4 = with_row st ?s4"
    using wf by (intro with_row_save) simp_all
  have u: "snd (UnassignSubscription (with_row st ?s3) (Some (subscriptions_seq st)) t4 True) =
      with_row st ?s4"
    using UnassignSubscription_ok [OF f3, of t4] sv by simp
  have g: "GetActiveSubscription customer (with_row st ?s3) = Some ?s3"
    using with_row_active(2) [OF na, of ?s3] by (simp add: status_defs)
  have c: "GetCurrentCustomer (with_row st ?s3) userID = Some customer"
    using cust by (simp add: with_row_simps)
  have d: "snd (DeactivateSubscription (with_row st ?s3) userID t4 True) = with_row st ?s4"
    using DeactivateSubscription_ok [OF c g, of t4] sv by simp
  from u d show ?thesis
    unfolding l by (intro exI [of _ e]) simp
qed

text \<open>
  Claim C6. UnassignSubscription on a subscription whose status is not \<^verbatim>\<open>active\<close>
  answers 400 and writes nothing; the customer's DeactivateSubscription (of either API)
  answers 404 and writes nothing when the customer has no subscription of status
  \<^verbatim>\<open>active\<close>. On an active subscription, when the store accepts the write, both
  store the same row with status \<^verbatim>\<open>inactive\<close> and \<^verbatim>\<open>deactivatedAt = now\<close>, every
  other field and every other row as before. After Request, Approve and Assign on a fresh
  subscription, Unassign and Deactivate each leave that subscription with status
  \<^verbatim>\<open>inactive\<close>, \<^verbatim>\<open>deactivatedAt\<close> set, and \<^verbatim>\<open>requestedAt\<close>, \<^verbatim>\<open>approvedAt\<close>
  and \<^verbatim>\<open>assignedAt\<close> as Request, Approve and Assign set them.
\<close>

theorem unassign_outcomes:
  "(first_subscription st i = Some sub \<and> Status sub \<noteq> StatusActive \<longrightarrow>
      UnassignSubscription st (Some i) now wr =
        (ErrorResponse StatusBadRequest ''Only active subscriptions can be unassigned'', st))
   \<and> (first_subscription st i = Some sub \<and> Status sub = StatusActive \<longrightarrow>
      UnassignSubscription st (Some i) now True =
        (SuccessResponse (sub\<lparr>Status := StatusInactive, DeactivatedAt := Some now\<rparr>)
           ''Subscription unassigned successfully'',
         save_subscription st (sub\<lparr>Status := StatusInactive, DeactivatedAt := Some now\<rparr>)) \<and>
      first_subscription
        (save_subscription st (sub\<lparr>Status := StatusInactive, DeactivatedAt := Some now\<rparr>)) i =
        Some (sub\<lparr>Status := StatusInactive, DeactivatedAt := Some now\<rparr>) \<and>
      (\<forall>j. j \<noteq> i \<longrightarrow>
        first_subscription
          (save_subscription st (sub\<lparr>Status := StatusInactive, DeactivatedAt := Some now\<rparr>)) j =
        first_subscription st j))
   \<and> (GetCurrentCustomer st userID = Some customer \<and> \<not> HasActiveSubscription customer st \<longrightarrow>
      DeactivateSubscription st userID now wr =
        (ErrorResponse StatusNotFound ''No active subscription found'', st))
   \<and> (GetCurrentCustomer st userID = Some customer \<and>
        GetActiveSubscription customer st = Some sub \<longrightarrow>
      Status sub = StatusActive \<and>
      DeactivateSubscription st userID now True =
        (SuccessResponse (sub\<lparr>Status := StatusInactive, DeactivatedAt := Some now\<rparr>)
           ''Subscription deactivated successfully'',
         save_subscription st (sub\<lparr>Status := StatusInactive, DeactivatedAt := Some now\<rparr>)))
   \<and> SDK_DeactivateSubscription st userID now wr = DeactivateSubscription st userID now wr
   \<and> (is_error (fst (UnassignSubscription st sid now wr)) \<longrightarrow>
        snd (UnassignSubscription st sid now wr) = st)
   \<and> (is_error (fst (DeactivateSubscription st userID now wr)) \<longrightarrow>
        snd (DeactivateSubscription st userID now wr) = st)
   \<and> (wf_subscriptions st \<and> GetCurrentCustomer st userID = Some customer \<and>
        \<not> HasActiveSubscription customer st \<and> first_pack_by_sku st (PackSKU r) = Some pack \<longrightarrow>
      (\<exists>e.
        snd (UnassignSubscription (lifecycle st userID r t1 t2 t3) (Some (subscriptions_seq st))
               t4 True) =
          with_row st
            \<lparr>sub_ID = subscriptions_seq st, CustomerID = cust_ID customer,
             PackID = pack_ID pack, Status = StatusInactive, RequestedAt = t1,
             ApprovedAt = Some t2, AssignedAt = Some t3, ExpiresAt = Some e,
             DeactivatedAt = Some t4\<rparr> \<and>
        snd (DeactivateSubscription (lifecycle st userID r t1 t2 t3) userID t4 True) =
          with_row st
            \<lparr>sub_ID = subscriptions_seq st, CustomerID = cust_ID customer,
             PackID = pack_ID pack, Status = StatusInactive, RequestedAt = t1,
             ApprovedAt = Some t2, AssignedAt = Some t3, ExpiresAt = Some e,
             DeactivatedAt = Some t4\<rparr>))"
proof (intro conjI impI allI)
  assume "first_subscription st i = Some sub \<and> Status sub \<noteq> StatusActive"
  then show "UnassignSubscription st (Some i) now wr =
        (ErrorResponse StatusBadRequest ''Only active subscriptions can be unassigned'', st)"
    by (simp add: UnassignSubscription_def)
next
  assume h: "first_subscription st i = Some sub \<and> Status sub = StatusActive"
  then show "UnassignSubscription st (Some i) now True =
        (SuccessResponse (sub\<lparr>Status := StatusInactive, DeactivatedAt := Some now\<rparr>)
           ''Subscription unassigned successfully'',
         save_subscription st (sub\<lparr>Status := StatusInactive, DeactivatedAt := Some now\<rparr>))"
    by (simp add: UnassignSubscription_ok)
  from h first_subscription_set [of st i sub]
  have id: "sub_ID (sub\<lparr>Status := StatusInactive, DeactivatedAt := Some now\<rparr>) = i" by simp
  from h id show "first_subscription
        (save_subscription st (sub\<lparr>Status := StatusInactive, DeactivatedAt := Some now\<rparr>)) i =
        Some (sub\<lparr>Status := StatusInactive, DeactivatedAt := Some now\<rparr>)"
    by (intro first_subscription_save [of st i sub]) simp_all
  fix j
  assume "j \<noteq> i"
  with id show "first_subscription
          (save_subscription st (sub\<lparr>Status := StatusInactive, DeactivatedAt := Some now\<rparr>)) j =
        first_subscription st j"
    by (intro first_subscription_save_other) simp
next
  assume "GetCurrentCustomer st userID = Some customer \<and> \<not> HasActiveSubscription customer st"
  then show "DeactivateSubscription st userID now wr =
        (ErrorResponse StatusNotFound ''No active subscription found'', st)"
    using GetActiveSubscription_None [of customer st]
    by (simp add: DeactivateSubscription_def)
next
  assume h: "GetCurrentCustomer st userID = Some customer \<and>
        GetActiveSubscription customer st = Some sub"
  then show "Status sub = StatusActive"
    using GetActiveSubscription_set [of customer st sub] by simp
  from h show "DeactivateSubscription st userID now True =
        (SuccessResponse (sub\<lparr>Status := StatusInactive, DeactivatedAt := Some now\<rparr>)
           ''Subscription deactivated successfully'',
         save_subscription st (sub\<lparr>Status := StatusInactive, DeactivatedAt := Some now\<rparr>))"
    by (simp add: DeactivateSubscription_ok)
next
  show "SDK_DeactivateSubscription st userID now wr = DeactivateSubscription st userID now wr"
    by (rule SDK_DeactivateSubscription_eq)
next
  assume "is_error (fst (UnassignSubscription st sid now wr))"
  then show "snd (UnassignSubscription st sid now wr) = st"
    by (rule UnassignSubscription_failure_unchanged)
next
  assume "is_error (fst (DeactivateSubscription st userID now wr))"
  then show "snd (DeactivateSubscription st userID now wr) = st"
    by (rule DeactivateSubscription_failure_unchanged)
next
  assume "wf_subscriptions st \<and> GetCurrentCustomer st userID = Some customer \<and>
        \<not> HasActiveSubscription customer st \<and> first_pack_by_sku st (PackSKU r) = Some pack"
  then show "\<exists>e.
        snd (UnassignSubscription (lifecycle st userID r t1 t2 t3) (Some (subscriptions_seq st))
               t4 True) =
          with_row st
            \<lparr>sub_ID = subscriptions_seq st, CustomerID = cust_ID customer,
             PackID = pack_ID pack, Status = StatusInactive, RequestedAt = t1,
             ApprovedAt = Some t2, AssignedAt = Some t3, ExpiresAt = Some e,
             DeactivatedAt = Some t4\<rparr> \<and>
        snd (DeactivateSubscription (lifecycle st userID r t1 t2 t3) userID t4 True) =
          with_row st
            \<lparr>sub_ID = subscriptions_seq st, CustomerID = cust_ID customer,
             PackID = pack_ID pack, Status = StatusInactive, RequestedAt = t1,
             ApprovedAt = Some t2, AssignedAt = Some t3, ExpiresAt = Some e,
             DeactivatedAt = Some t4\<rparr>"
    by (elim conjE) (rule lifecycle_end)
qed


theorem unassign_outcomes_witness:
  "wf_subscriptions example_store
   \<and> UnassignSubscription example_approved_store (Some 1) (example_time 2 1) True =
       (ErrorResponse StatusBadRequest ''Only active subscriptions can be unassigned'',
        example_approved_store)
   \<and> map (\<lambda>s. (Status s, ApprovedAt s, AssignedAt s, DeactivatedAt s))
        (subscriptions
          (snd (UnassignSubscription
                 (lifecycle example_store (Some 2) \<lparr>PackSKU = ''basic-1m''\<rparr>
                    (example_time 1 29) (example_time 1 30) (example_time 1 31))
                 (Some 1) (example_time 2 1) True))) =
       [(StatusInactive, Some (example_time 1 30), Some (example_time 1 31),
         Some (example_time 2 1))]
   \<and> map (\<lambda>s. (Status s, ApprovedAt s, AssignedAt s, DeactivatedAt s))
        (subscriptions
          (snd (DeactivateSubscription
                 (lifecycle example_store (Some 2) \<lparr>PackSKU = ''basic-1m''\<rparr>
                    (example_time 1 29) (example_time 1 30) (example_time 1 31))
                 (Some 2) (example_time 2 1) True))) =
       [(StatusInactive, Some (example_time 1 30), Some (example_time 1 31),
         Some (example_time 2 1))]"
proof -
  let ?ann = "\<lparr>cust_ID = 1, UserID = 2, cust_Name = ''Ann'', Phone = [], cust_DeletedAt = None\<rparr>"
  let ?basic = "\<lparr>pack_ID = 1, pack_Name = ''Basic'', Description = [], SKU = ''basic-1m'',
           ValidityMonths = 1, pack_DeletedAt = None\<rparr>"
  let ?row = "\<lparr>sub_ID = 1, CustomerID = 1, PackID = 1, Status = StatusApproved,
            RequestedAt = example_time 1 29, ApprovedAt = Some (example_time 1 30),
            AssignedAt = None, ExpiresAt = None, DeactivatedAt = None\<rparr>"
  have wf: "wf_subscriptions example_store"
    by (simp add: wf_subscriptions_def example_store_def)
  have seq: "subscriptions_seq example_store = 1" "subscriptions example_store = []"
    by (simp_all add: example_store_def)
  have row: "first_subscription example_approved_store 1 = Some ?row \<and>
      Status ?row \<noteq> StatusActive"
    using status_distinct
    by (simp add: first_subscription_def example_approved_store_def)
  note a = unassign_outcomes [of example_approved_store 1 ?row "example_time 2 1" True]
  note b = unassign_outcomes [of example_store 1 ?row "example_time 2 1" True "Some 2" ?ann None
      "\<lparr>PackSKU = ''basic-1m''\<rparr>" ?basic
      "example_time 1 29" "example_time 1 30" "example_time 1 31" "example_time 2 1"]
  have h: "wf_subscriptions example_store \<and> GetCurrentCustomer example_store (Some 2) = Some ?ann \<and>
        \<not> HasActiveSubscription ?ann example_store \<and>
        first_pack_by_sku example_store (PackSKU \<lparr>PackSKU = ''basic-1m''\<rparr>) = Some ?basic"
    using wf example_lookups example_active by simp
  from a row have 1: "UnassignSubscription example_approved_store (Some 1) (example_time 2 1) True =
       (ErrorResponse StatusBadRequest ''Only active subscriptions can be unassigned'',
        example_approved_store)"
    by simp
  from b [THEN conjunct2, THEN conjunct2, THEN conjunct2, THEN conjunct2, THEN conjunct2,
      THEN conjunct2, THEN conjunct2, THEN mp, OF h] obtain e where
    2: "snd (UnassignSubscription
                 (lifecycle example_store (Some 2) \<lparr>PackSKU = ''basic-1m''\<rparr>
                    (example_time 1 29) (example_time 1 30) (example_time 1 31))
                 (Some (subscriptions_seq example_store)) (example_time 2 1) True) =
          with_row example_store
            \<lparr>sub_ID = subscriptions_seq example_store, CustomerID = cust_ID ?ann,
             PackID = pack_ID ?basic, Status = StatusInactive, RequestedAt = example_time 1 29,
             ApprovedAt = Some (example_time 1 30), AssignedAt = Some (example_time 1 31),
             ExpiresAt = Some e, DeactivatedAt = Some (example_time 2 1)\<rparr>"
    and 3: "snd (DeactivateSubscription
                 (lifecycle example_store (Some 2) \<lparr>PackSKU = ''basic-1m''\<rparr>
                    (example_time 1 29) (example_time 1 30) (example_time 1 31))
                 (Some 2) (example_time 2 1) True) =
          with_row example_store
            \<lparr>sub_ID = subscriptions_seq example_store, CustomerID = cust_ID ?ann,
             PackID = pack_ID ?basic, Status = StatusInactive, RequestedAt = example_time 1 29,
             ApprovedAt = Some (example_time 1 30), AssignedAt = Some (example_time 1 31),
             ExpiresAt = Some e, DeactivatedAt = Some (example_time 2 1)\<rparr>"
    by (elim exE conjE)
  show ?thesis
    using wf 1 2 3 by (simp add: seq with_row_simps)
qed


section \<open>Login failures\<close>

lemma no_user_with_email:
  "\<forall>u\<in>set (users st). Email u \<noteq> email \<Longrightarrow> first_user_by_email_role st email role = None"
  unfolding first_user_by_email_role_def find_None_iff by blast

text \<open>
  Claim C9. For AdminLogin, CustomerLogin and the SDK Login, a request whose email belongs
  to no user and a request naming a user of the right role with a password that does not
  match get the same response: status 401 with the message \<^verbatim>\<open>Invalid credentials\<close>
  (and the SDK Login leaves the store as it was in both runs).
\<close>

theorem login_failures_indistinguishable:
  "((\<forall>u\<in>set (users st1). Email u \<noteq> login_Email r1) \<and>
    first_user_by_email_role st2 (login_Email r2) ''admin'' = Some admin \<and>
    \<not> CheckPassword compare admin (login_Password r2) \<longrightarrow>
      AdminLogin compare sign st1 (Some r1) now1 =
        ErrorResponse StatusUnauthorized ''Invalid credentials'' \<and>
      AdminLogin compare sign st2 (Some r2) now2 =
        ErrorResponse StatusUnauthorized ''Invalid credentials'')
   \<and> ((\<forall>u\<in>set (users st1). Email u \<noteq> login_Email r1) \<and>
    first_user_by_email_role st2 (login_Email r2) ''customer'' = Some user \<and>
    \<not> CheckPassword compare user (login_Password r2) \<longrightarrow>
      CustomerLogin compare sign st1 (Some r1) now1 =
        ErrorResponse StatusUnauthorized ''Invalid credentials'' \<and>
      CustomerLogin compare sign st2 (Some r2) now2 =
        ErrorResponse StatusUnauthorized ''Invalid credentials'' \<and>
      SDK_Login compare st1 (Some r1) entropy1 wr1 =
        (ErrorResponse StatusUnauthorized ''Invalid credentials'', st1) \<and>
      SDK_Login compare st2 (Some r2) entropy2 wr2 =
        (ErrorResponse StatusUnauthorized ''Invalid credentials'', st2))"
proof (intro conjI impI)
  assume h: "(\<forall>u\<in>set (users st1). Email u \<noteq> login_Email r1) \<and>
    first_user_by_email_role st2 (login_Email r2) ''admin'' = Some admin \<and>
    \<not> CheckPassword compare admin (login_Password r2)"
  then have n: "first_user_by_email_role st1 (login_Email r1) ''admin'' = None"
    by (simp add: no_user_with_email)
  from n show "AdminLogin compare sign st1 (Some r1) now1 =
        ErrorResponse StatusUnauthorized ''Invalid credentials''"
    by (simp add: AdminLogin_def)
  from h show "AdminLogin compare sign st2 (Some r2) now2 =
        ErrorResponse StatusUnauthorized ''Invalid credentials''"
    by (simp add: AdminLogin_def)
next
  assume h: "(\<forall>u\<in>set (users st1). Email u \<noteq> login_Email r1) \<and>
    first_user_by_email_role st2 (login_Email r2) ''customer'' = Some user \<and>
    \<not> CheckPassword compare user (login_Password r2)"
  then have n: "first_user_by_email_role st1 (login_Email r1) ''customer'' = None"
    by (simp add: no_user_with_email)
  from n show "CustomerLogin compare sign st1 (Some r1) now1 =
        ErrorResponse StatusUnauthorized ''Invalid credentials''"
    by (simp add: CustomerLogin_def)
  from h show "CustomerLogin compare sign st2 (Some r2) now2 =
        ErrorResponse StatusUnauthorized ''Invalid credentials''"
    by (simp add: CustomerLogin_def)
  from n show "SDK_Login compare st1 (Some r1) entropy1 wr1 =
        (ErrorResponse StatusUnauthorized ''Invalid credentials'', st1)"
    by (simp add: SDK_Login_def)
  from h show "SDK_Login compare st2 (Some r2) entropy2 wr2 =
        (ErrorResponse StatusUnauthorized ''Invalid credentials'', st2)"
    by (simp add: SDK_Login_def)
qed

theorem login_failures_indistinguishable_witness:
  "AdminLogin example_compare example_sign example_store
     (Some \<lparr>login_Email = ''nobody@example.com'', login_Password = ''admin''\<rparr>)
     (example_time 2 1) =
   AdminLogin example_compare example_sign example_store
     (Some \<lparr>login_Email = ''root@example.com'', login_Password = ''guess''\<rparr>)
     (example_time 2 1)
   \<and> CustomerLogin example_compare example_sign example_store
     (Some \<lparr>login_Email = ''nobody@example.com'', login_Password = ''admin''\<rparr>)
     (example_time 2 1) =
   CustomerLogin example_compare example_sign example_store
     (Some \<lparr>login_Email = ''ann@example.com'', login_Password = ''guess''\<rparr>)
     (example_time 2 1)
   \<and> SDK_Login example_compare example_store
     (Some \<lparr>login_Email = ''nobody@example.com'', login_Password = ''admin''\<rparr>)
     (Some (replicate 16 0)) True =
   SDK_Login example_compare example_store
     (Some \<lparr>login_Email = ''ann@example.com'', login_Password = ''guess''\<rparr>)
     (Some (replicate 16 0)) True
   \<and> fst (SDK_Login example_compare example_store
     (Some \<lparr>login_Email = ''ann@example.com'', login_Password = ''guess''\<rparr>)
     (Some (replicate 16 0)) True) = ErrorResponse StatusUnauthorized ''Invalid credentials''"
proof -
  let ?root = "\<lparr>user_ID = 1, Email = ''root@example.com'', Password = ''hash-of-admin'',
          Role = ''admin'', APIKey = None\<rparr>"
  let ?ann = "\<lparr>user_ID = 2, Email = ''ann@example.com'', Password = ''hash-of-secret'',
          Role = ''customer'', APIKey = None\<rparr>"
  let ?r1 = "\<lparr>login_Email = ''nobody@example.com'', login_Password = ''admin''\<rparr>"
  have a: "(\<forall>u\<in>set (users example_store). Email u \<noteq> login_Email ?r1) \<and>
    first_user_by_email_role example_store
      (login_Email \<lparr>login_Email = ''root@example.com'', login_Password = ''guess''\<rparr>) ''admin'' =
      Some ?root \<and>
    \<not> CheckPassword example_compare ?root
      (login_Password \<lparr>login_Email = ''root@example.com'', login_Password = ''guess''\<rparr>)"
    by (simp add: example_store_def first_user_by_email_role_def CheckPassword_def
        example_compare_def)
  have c: "(\<forall>u\<in>set (users example_store). Email u \<noteq> login_Email ?r1) \<and>
    first_user_by_email_role example_store
      (login_Email \<lparr>login_Email = ''ann@example.com'', login_Password = ''guess''\<rparr>) ''customer'' =
      Some ?ann \<and>
    \<not> CheckPassword example_compare ?ann
      (login_Password \<lparr>login_Email = ''ann@example.com'', login_Password = ''guess''\<rparr>)"
    by (simp add: example_store_def first_user_by_email_role_def CheckPassword_def
        example_compare_def)
  note t = login_failures_indistinguishable [of example_store ?r1 example_store
      "\<lparr>login_Email = ''root@example.com'', login_Password = ''guess''\<rparr>" ?root
      example_compare example_sign "example_time 2 1" "example_time 2 1"]
  note t' = login_failures_indistinguishable [of example_store ?r1 example_store
      "\<lparr>login_Email = ''ann@example.com'', login_Password = ''guess''\<rparr>" _
      example_compare example_sign "example_time 2 1" "example_time 2 1" ?ann
      "Some (replicate 16 0)" True "Some (replicate 16 0)" True]
  from t [THEN conjunct1, THEN mp, OF a] t' [THEN conjunct2, THEN mp, OF c]
  show ?thesis by simp
qed



section \<open>API keys\<close>

lemma find_save_match:
  "find P xs = Some u \<Longrightarrow> P u' \<Longrightarrow>
     find P (map (\<lambda>r. if key r = key u then u' else r) xs) = Some u'"
  by (induction xs) (simp_all split: if_splits)

lemma GenerateAPIKey_HasAPIKey:
  "GenerateAPIKey u entropy = Some u' \<Longrightarrow>
     HasAPIKey u' \<and> (\<exists>bytes. entropy = Some bytes \<and>
       u' = u\<lparr>APIKey := Some (''sk-sdk-'' @ EncodeToString bytes)\<rparr>)"
  by (cases entropy) (auto simp add: GenerateAPIKey_def HasAPIKey_def)

lemma SDK_Login_success:
  assumes "SDK_Login compare st req entropy wr = (SuccessResponse resp msg, st')"
  shows "\<exists>r u u'. req = Some r \<and>
      first_user_by_email_role st (login_Email r) ''customer'' = Some u \<and>
      CheckPassword compare u (login_Password r) \<and>
      (if HasAPIKey u then u' = u \<and> st' = st
       else GenerateAPIKey u entropy = Some u' \<and> wr \<and> st' = save_user st u') \<and>
      resp = \<lparr>sdk_APIKey = (case APIKey u' of None \<Rightarrow> [] | Some k \<Rightarrow> k),
              sdk_User = u'\<lparr>Password := []\<rparr>\<rparr> \<and>
      msg = ''SDK authentication successful''"
  using assms
  by (auto simp add: SDK_Login_def sdk_login_response_def split: option.splits if_splits)

lemma SDK_Login_with_key:
  "first_user_by_email_role st (login_Email r) ''customer'' = Some u \<Longrightarrow>
   CheckPassword compare u (login_Password r) \<Longrightarrow> HasAPIKey u \<Longrightarrow>
     SDK_Login compare st (Some r) entropy wr =
       (SuccessResponse
          \<lparr>sdk_APIKey = (case APIKey u of None \<Rightarrow> [] | Some k \<Rightarrow> k),
           sdk_User = u\<lparr>Password := []\<rparr>\<rparr>
          ''SDK authentication successful'', st)"
  by (simp add: SDK_Login_def sdk_login_response_def)

lemma first_user_save:
  assumes "first_user_by_email_role st email role = Some u"
    and "Email u' = Email u" and "Role u' = Role u" and "user_ID u' = user_ID u"
  shows "first_user_by_email_role (save_user st u') email role = Some u'"
proof -
  have p: "Email u' = email \<and> Role u' = role"
    using assms find_Some_set [of "\<lambda>u. Email u = email \<and> Role u = role" "users st" u]
    by (simp add: first_user_by_email_role_def)
  have "find (\<lambda>u. Email u = email \<and> Role u = role)
          (map (\<lambda>r. if user_ID r = user_ID u then u' else r) (users st)) = Some u'"
    using assms(1) p unfolding first_user_by_email_role_def by (rule find_save_match)
  then show ?thesis
    by (simp add: first_user_by_email_role_def save_user_def assms(4))
qed

text \<open>
  Claim C8. After a successful SDK Login, every further SDK Login with the same request
  succeeds with the same response, hence the same API key, and leaves the store
  unchanged, whatever entropy is drawn and whether or not the store would accept a
  write; a further successful SDK Login for the same email returns the same key and
  leaves the store unchanged as well. The first login generates a key only when the user has none: with a key
  present the store is unchanged and the stored key is returned; without one, the key
  returned is the freshly generated one and it is what the store holds afterwards.
\<close>

theorem sdk_login_idempotent:
  assumes "SDK_Login compare st req entropy1 wr1 = (SuccessResponse resp msg, st1)"
  shows "SDK_Login compare st1 req entropy2 wr2 = (SuccessResponse resp msg, st1)
    \<and> (\<exists>r u. req = Some r \<and>
          first_user_by_email_role st1 (login_Email r) ''customer'' = Some u \<and>
          HasAPIKey u \<and> APIKey u = Some (sdk_APIKey resp))
    \<and> (\<forall>r u. req = Some r \<and>
          first_user_by_email_role st (login_Email r) ''customer'' = Some u \<and> HasAPIKey u \<longrightarrow>
          st1 = st \<and> APIKey u = Some (sdk_APIKey resp))
    \<and> (\<forall>r u. req = Some r \<and>
          first_user_by_email_role st (login_Email r) ''customer'' = Some u \<and> \<not> HasAPIKey u \<longrightarrow>
          (\<exists>bytes. entropy1 = Some bytes \<and>
             sdk_APIKey resp = ''sk-sdk-'' @ EncodeToString bytes \<and>
             st1 = save_user st (u\<lparr>APIKey := Some (''sk-sdk-'' @ EncodeToString bytes)\<rparr>)))
    \<and> (\<forall>r r2 resp2 msg2 st2. req = Some r \<and> login_Email r2 = login_Email r \<and>
          SDK_Login compare st1 (Some r2) entropy2 wr2 = (SuccessResponse resp2 msg2, st2) \<longrightarrow>
          sdk_APIKey resp2 = sdk_APIKey resp \<and> st2 = st1)"
proof -
  from SDK_Login_success [OF assms] obtain r u u' where
    req: "req = Some r" and
    u: "first_user_by_email_role st (login_Email r) ''customer'' = Some u" and
    pw: "CheckPassword compare u (login_Password r)" and
    k: "if HasAPIKey u then u' = u \<and> st1 = st
        else GenerateAPIKey u entropy1 = Some u' \<and> wr1 \<and> st1 = save_user st u'" and
    resp: "resp = \<lparr>sdk_APIKey = (case APIKey u' of None \<Rightarrow> [] | Some k \<Rightarrow> k),
              sdk_User = u'\<lparr>Password := []\<rparr>\<rparr>" and
    msg: "msg = ''SDK authentication successful''"
    by blast
  have has: "HasAPIKey u'"
    using k GenerateAPIKey_HasAPIKey [of u entropy1 u'] by (cases "HasAPIKey u") simp_all
  have same: "Email u' = Email u \<and> Role u' = Role u \<and> user_ID u' = user_ID u \<and>
      Password u' = Password u"
    using k GenerateAPIKey_HasAPIKey [of u entropy1 u'] by (cases "HasAPIKey u") auto
  have u1: "first_user_by_email_role st1 (login_Email r) ''customer'' = Some u'"
  proof (cases "HasAPIKey u")
    case True
    with k u show ?thesis by simp
  next
    case False
    with k have "st1 = save_user st u'" by simp
    with first_user_save [OF u, of u'] same show ?thesis by simp
  qed
  have pw': "CheckPassword compare u' (login_Password r)"
    using pw same by (simp add: CheckPassword_def)
  have key: "APIKey u' = Some (sdk_APIKey resp)"
    using has resp by (cases "APIKey u'") (simp_all add: HasAPIKey_def)
  show ?thesis
  proof (intro conjI allI impI)
    show "SDK_Login compare st1 req entropy2 wr2 = (SuccessResponse resp msg, st1)"
      unfolding req resp msg by (rule SDK_Login_with_key [OF u1 pw' has])
    show "\<exists>r u. req = Some r \<and>
          first_user_by_email_role st1 (login_Email r) ''customer'' = Some u \<and>
          HasAPIKey u \<and> APIKey u = Some (sdk_APIKey resp)"
      using req u1 has key by blast
  next
    fix r0 u0
    assume h: "req = Some r0 \<and>
          first_user_by_email_role st (login_Email r0) ''customer'' = Some u0 \<and> HasAPIKey u0"
    with req u have "u0 = u" by simp
    with h k key show "st1 = st" and "APIKey u0 = Some (sdk_APIKey resp)" by simp_all
  next
    fix r0 u0
    assume h: "req = Some r0 \<and>
          first_user_by_email_role st (login_Email r0) ''customer'' = Some u0 \<and> \<not> HasAPIKey u0"
    with req u have e: "u0 = u" by simp
    with h k have g: "GenerateAPIKey u entropy1 = Some u'" and s: "st1 = save_user st u'"
      by simp_all
    from GenerateAPIKey_HasAPIKey [OF g] obtain bytes where
      "entropy1 = Some bytes" "u' = u\<lparr>APIKey := Some (''sk-sdk-'' @ EncodeToString bytes)\<rparr>"
      by blast
    with s e resp show "\<exists>bytes. entropy1 = Some bytes \<and>
             sdk_APIKey resp = ''sk-sdk-'' @ EncodeToString bytes \<and>
             st1 = save_user st (u0\<lparr>APIKey := Some (''sk-sdk-'' @ EncodeToString bytes)\<rparr>)"
      by simp
  next
    fix r0 r2 resp2 msg2 st2
    assume h: "req = Some r0 \<and> login_Email r2 = login_Email r0 \<and>
          SDK_Login compare st1 (Some r2) entropy2 wr2 = (SuccessResponse resp2 msg2, st2)"
    with req have m: "login_Email r2 = login_Email r" by simp
    from h SDK_Login_success [of compare st1 "Some r2" entropy2 wr2 resp2 msg2 st2]
    obtain v v' where
      v: "first_user_by_email_role st1 (login_Email r2) ''customer'' = Some v" and
      kv: "if HasAPIKey v then v' = v \<and> st2 = st1
        else GenerateAPIKey v entropy2 = Some v' \<and> wr2 \<and> st2 = save_user st1 v'" and
      resp2: "resp2 = \<lparr>sdk_APIKey = (case APIKey v' of None \<Rightarrow> [] | Some k \<Rightarrow> k),
              sdk_User = v'\<lparr>Password := []\<rparr>\<rparr>"
      by auto
    from v u1 m have "v = u'" by simp
    with kv has have "v' = u'" "st2 = st1" by simp_all
    with resp2 resp show "sdk_APIKey resp2 = sdk_APIKey resp" and "st2 = st1" by simp_all
  qed
qed


lemma example_key:
  "EncodeToString example_entropy = ''000102030405060708090a0b0c0d0eff''"
  by (simp add: EncodeToString_def example_entropy_def hextable_def drop_bit_eq_div
      take_bit_eq_mod)


lemma example_first_login:
  "SDK_Login example_compare example_store (Some example_login) (Some example_entropy) True =
     (SuccessResponse
        \<lparr>sdk_APIKey = ''sk-sdk-000102030405060708090a0b0c0d0eff'',
         sdk_User = \<lparr>user_ID = 2, Email = ''ann@example.com'', Password = [],
           Role = ''customer'', APIKey = Some ''sk-sdk-000102030405060708090a0b0c0d0eff''\<rparr>\<rparr>
        ''SDK authentication successful'',
      example_store
        \<lparr>users :=
          [\<lparr>user_ID = 1, Email = ''root@example.com'', Password = ''hash-of-admin'',
            Role = ''admin'', APIKey = None\<rparr>,
           \<lparr>user_ID = 2, Email = ''ann@example.com'', Password = ''hash-of-secret'',
            Role = ''customer'',
            APIKey = Some ''sk-sdk-000102030405060708090a0b0c0d0eff''\<rparr>]\<rparr>)"
  by (simp add: SDK_Login_def sdk_login_response_def example_login_def example_store_def
      first_user_by_email_role_def
      CheckPassword_def example_compare_def HasAPIKey_def GenerateAPIKey_def save_user_def
      example_key)

theorem sdk_login_idempotent_witness:
  "fst (SDK_Login example_compare example_store (Some example_login) (Some example_entropy) True) =
     SuccessResponse
        \<lparr>sdk_APIKey = ''sk-sdk-000102030405060708090a0b0c0d0eff'',
         sdk_User = \<lparr>user_ID = 2, Email = ''ann@example.com'', Password = [],
           Role = ''customer'', APIKey = Some ''sk-sdk-000102030405060708090a0b0c0d0eff''\<rparr>\<rparr>
        ''SDK authentication successful''
   \<and> SDK_Login example_compare
        (snd (SDK_Login example_compare example_store (Some example_login)
                (Some example_entropy) True))
        (Some example_login) (Some (rev example_entropy)) False =
     (SuccessResponse
        \<lparr>sdk_APIKey = ''sk-sdk-000102030405060708090a0b0c0d0eff'',
         sdk_User = \<lparr>user_ID = 2, Email = ''ann@example.com'', Password = [],
           Role = ''customer'', APIKey = Some ''sk-sdk-000102030405060708090a0b0c0d0eff''\<rparr>\<rparr>
        ''SDK authentication successful'',
      snd (SDK_Login example_compare example_store (Some example_login)
             (Some example_entropy) True))
   \<and> map APIKey
        (users (snd (SDK_Login example_compare example_store (Some example_login)
                       (Some example_entropy) True))) =
     [None, Some ''sk-sdk-000102030405060708090a0b0c0d0eff'']"
  using sdk_login_idempotent [OF example_first_login, of "Some (rev example_entropy)" False]
  by (simp add: example_first_login)


lemma users_create_user:
  "users (snd (create_user st u)) = users st @ [u\<lparr>user_ID := users_seq st\<rparr>]"
  "fst (create_user st u) = u\<lparr>user_ID := users_seq st\<rparr>"
  by (simp_all add: create_user_def Let_def)

lemma users_create_customer: "users (snd (create_customer st c)) = users st"
  by (simp add: create_customer_def Let_def)

lemma CustomerSignup_row:
  assumes "CustomerSignup hash sign st req entropy now wr1 wr2 = (SuccessResponse resp msg, st')"
  shows "\<exists>r hashed bytes. req = Some r \<and> hash (signup_Password r) = Some hashed \<and>
      entropy = Some bytes \<and>
      users st' = users st @
        [\<lparr>user_ID = users_seq st, Email = signup_Email r, Password = hashed,
          Role = ''customer'', APIKey = Some (''sk-sdk-'' @ EncodeToString bytes)\<rparr>]"
  using assms
  by (auto simp add: CustomerSignup_def HashPassword_def GenerateAPIKey_def create_user_def
      create_customer_def Let_def split: option.splits if_splits prod.splits)

lemma CustomerSignup_success:
  assumes "CustomerSignup hash sign st req entropy now wr1 wr2 = (SuccessResponse resp msg, st')"
  shows "\<exists>u bytes. users st' = users st @ [u] \<and> Role u = ''customer'' \<and>
         entropy = Some bytes \<and> APIKey u = Some (''sk-sdk-'' @ EncodeToString bytes) \<and>
         HasAPIKey u"
  using CustomerSignup_row [OF assms]
  apply (elim exE conjE)
  subgoal for r hashed bytes
    apply (rule exI [of _ "\<lparr>user_ID = users_seq st, Email = signup_Email r, Password = hashed,
          Role = ''customer'', APIKey = Some (''sk-sdk-'' @ EncodeToString bytes)\<rparr>"])
    apply (rule exI [of _ bytes])
    apply (simp add: HasAPIKey_def)
    done
  done

lemma CreateCustomer_row:
  assumes "CreateCustomer hash st req wr1 wr2 = (SuccessResponse c msg, st')"
  shows "\<exists>r hashed. req = Some r \<and> hash (cc_Password r) = Some hashed \<and>
      users st' = users st @
        [\<lparr>user_ID = users_seq st, Email = cc_Email r, Password = hashed,
          Role = ''customer'', APIKey = None\<rparr>]"
  using assms
  by (auto simp add: CreateCustomer_def HashPassword_def create_user_def
      create_customer_def Let_def split: option.splits if_splits prod.splits)

lemma CreateCustomer_success:
  assumes "CreateCustomer hash st req wr1 wr2 = (SuccessResponse c msg, st')"
  shows "\<exists>u. users st' = users st @ [u] \<and> Role u = ''customer'' \<and> APIKey u = None \<and>
         \<not> HasAPIKey u"
  using CreateCustomer_row [OF assms]
  apply (elim exE conjE)
  subgoal for r hashed
    apply (rule exI [of _ "\<lparr>user_ID = users_seq st, Email = cc_Email r, Password = hashed,
          Role = ''customer'', APIKey = None\<rparr>"])
    apply (simp add: HasAPIKey_def)
    done
  done

lemma users_effect: "store_effect st st' \<Longrightarrow> users st' = users st"
  unfolding store_effect_def
  by (auto simp add: create_subscription_def save_subscription_def delete_subscription_def
      Let_def)

lemma CustomerSignup_keeps_users:
  "\<exists>us. users (snd (CustomerSignup hash sign st req entropy now wr1 wr2)) = users st @ us"
  by (auto simp add: CustomerSignup_def create_user_def create_customer_def Let_def
      split: option.splits if_splits prod.splits)

lemma CreateCustomer_keeps_users:
  "\<exists>us. users (snd (CreateCustomer hash st req wr1 wr2)) = users st @ us"
  by (auto simp add: CreateCustomer_def create_user_def create_customer_def Let_def
      split: option.splits if_splits prod.splits)


text \<open>
  Claim C7, as amended. A user created through CustomerSignup has an API key from the
  signup on: the handler generates it before it inserts the user. A user created by an
  admin through CreateCustomer has none; for such a user the first successful SDK Login
  generates the key and stores it. No subscription request changes the users table, and
  CustomerSignup and CreateCustomer leave the existing users as they are.
\<close>

theorem api_key_assignment:
  "(CustomerSignup hash sign st sreq entropy now wr1 wr2 = (SuccessResponse resp msg, st') \<longrightarrow>
      (\<exists>u bytes. users st' = users st @ [u] \<and> Role u = ''customer'' \<and>
         entropy = Some bytes \<and> APIKey u = Some (''sk-sdk-'' @ EncodeToString bytes) \<and>
         HasAPIKey u))
   \<and> (CreateCustomer hash st creq cw1 cw2 = (SuccessResponse c cmsg, st'') \<longrightarrow>
      (\<exists>u. users st'' = users st @ [u] \<and> Role u = ''customer'' \<and> APIKey u = None \<and>
         \<not> HasAPIKey u))
   \<and> (first_user_by_email_role st (login_Email r) ''customer'' = Some user \<and>
       \<not> HasAPIKey user \<and>
       SDK_Login compare st (Some r) lentropy lwr = (SuccessResponse lresp lmsg, lst) \<longrightarrow>
      (\<exists>bytes. lentropy = Some bytes \<and>
         sdk_APIKey lresp = ''sk-sdk-'' @ EncodeToString bytes \<and>
         lst = save_user st (user\<lparr>APIKey := Some (''sk-sdk-'' @ EncodeToString bytes)\<rparr>) \<and>
         first_user_by_email_role lst (login_Email r) ''customer'' =
           Some (user\<lparr>APIKey := Some (''sk-sdk-'' @ EncodeToString bytes)\<rparr>)))
   \<and> (step st st2 \<longrightarrow> users st2 = users st)
   \<and> (\<exists>us. users (snd (CustomerSignup hash sign st sreq entropy now wr1 wr2)) = users st @ us)
   \<and> (\<exists>us. users (snd (CreateCustomer hash st creq cw1 cw2)) = users st @ us)"
proof (intro conjI impI)
  assume "CustomerSignup hash sign st sreq entropy now wr1 wr2 = (SuccessResponse resp msg, st')"
  then show "\<exists>u bytes. users st' = users st @ [u] \<and> Role u = ''customer'' \<and>
         entropy = Some bytes \<and> APIKey u = Some (''sk-sdk-'' @ EncodeToString bytes) \<and>
         HasAPIKey u"
    by (rule CustomerSignup_success)
next
  assume "CreateCustomer hash st creq cw1 cw2 = (SuccessResponse c cmsg, st'')"
  then show "\<exists>u. users st'' = users st @ [u] \<and> Role u = ''customer'' \<and> APIKey u = None \<and>
         \<not> HasAPIKey u"
    by (rule CreateCustomer_success)
next
  assume h: "first_user_by_email_role st (login_Email r) ''customer'' = Some user \<and>
       \<not> HasAPIKey user \<and>
       SDK_Login compare st (Some r) lentropy lwr = (SuccessResponse lresp lmsg, lst)"
  from h SDK_Login_success [of compare st "Some r" lentropy lwr lresp lmsg lst] obtain u' where
    g: "GenerateAPIKey user lentropy = Some u'" and s: "lst = save_user st u'" and
    resp: "lresp = \<lparr>sdk_APIKey = (case APIKey u' of None \<Rightarrow> [] | Some k \<Rightarrow> k),
              sdk_User = u'\<lparr>Password := []\<rparr>\<rparr>"
    by auto
  from GenerateAPIKey_HasAPIKey [OF g] obtain bytes where
    b: "lentropy = Some bytes" "u' = user\<lparr>APIKey := Some (''sk-sdk-'' @ EncodeToString bytes)\<rparr>"
    by (elim exE conjE) (rule that, assumption+)
  have f: "first_user_by_email_role lst (login_Email r) ''customer'' = Some u'"
    unfolding s using h b by (intro first_user_save [of st _ _ user]) simp_all
  have "lentropy = Some bytes \<and>
         sdk_APIKey lresp = ''sk-sdk-'' @ EncodeToString bytes \<and>
         lst = save_user st (user\<lparr>APIKey := Some (''sk-sdk-'' @ EncodeToString bytes)\<rparr>) \<and>
         first_user_by_email_role lst (login_Email r) ''customer'' =
           Some (user\<lparr>APIKey := Some (''sk-sdk-'' @ EncodeToString bytes)\<rparr>)"
    using b s resp f by simp
  then show "\<exists>bytes. lentropy = Some bytes \<and>
         sdk_APIKey lresp = ''sk-sdk-'' @ EncodeToString bytes \<and>
         lst = save_user st (user\<lparr>APIKey := Some (''sk-sdk-'' @ EncodeToString bytes)\<rparr>) \<and>
         first_user_by_email_role lst (login_Email r) ''customer'' =
           Some (user\<lparr>APIKey := Some (''sk-sdk-'' @ EncodeToString bytes)\<rparr>)"
    by (intro exI)
next
  assume "step st st2"
  then show "users st2 = users st" by (intro users_effect step_effect)
next
  show "\<exists>us. users (snd (CustomerSignup hash sign st sreq entropy now wr1 wr2)) = users st @ us"
    by (rule CustomerSignup_keeps_users)
  show "\<exists>us. users (snd (CreateCustomer hash st creq cw1 cw2)) = users st @ us"
    by (rule CreateCustomer_keeps_users)
qed

lemma example_signup_run:
  "CustomerSignup example_hash example_sign example_store (Some example_signup)
     (Some example_entropy) (example_time 2 1) True True =
     (SuccessResponse
        \<lparr>Token = ''signed-token'',
         login_User = \<lparr>user_ID = 3, Email = ''bob@example.com'', Password = [],
           Role = ''customer'', APIKey = None\<rparr>\<rparr>
        ''Registration successful'',
      example_store
        \<lparr>users := users example_store @
           [\<lparr>user_ID = 3, Email = ''bob@example.com'', Password = ''hash-of-hunter22'',
             Role = ''customer'',
             APIKey = Some ''sk-sdk-000102030405060708090a0b0c0d0eff''\<rparr>],
         customers := customers example_store @
           [\<lparr>cust_ID = 2, UserID = 3, cust_Name = ''Bob'', Phone = [],
             cust_DeletedAt = None\<rparr>],
         users_seq := 4, customers_seq := 3\<rparr>)"
  by (simp add: CustomerSignup_def example_signup_def example_store_def first_user_by_email_def
      HashPassword_def example_hash_def GenerateAPIKey_def example_key create_user_def
      create_customer_def generateJWT_def example_sign_def Let_def)

theorem api_key_assignment_witness:
  "CustomerSignup example_hash example_sign example_store (Some example_signup)
     (Some example_entropy) (example_time 2 1) True True =
     (SuccessResponse
        \<lparr>Token = ''signed-token'',
         login_User = \<lparr>user_ID = 3, Email = ''bob@example.com'', Password = [],
           Role = ''customer'', APIKey = None\<rparr>\<rparr>
        ''Registration successful'',
      example_store
        \<lparr>users := users example_store @
           [\<lparr>user_ID = 3, Email = ''bob@example.com'', Password = ''hash-of-hunter22'',
             Role = ''customer'',
             APIKey = Some ''sk-sdk-000102030405060708090a0b0c0d0eff''\<rparr>],
         customers := customers example_store @
           [\<lparr>cust_ID = 2, UserID = 3, cust_Name = ''Bob'', Phone = [],
             cust_DeletedAt = None\<rparr>],
         users_seq := 4, customers_seq := 3\<rparr>)
   \<and> HasAPIKey
        (last (users (snd (CustomerSignup example_hash example_sign example_store
                             (Some example_signup) (Some example_entropy) (example_time 2 1)
                             True True))))"
proof -
  from api_key_assignment [THEN conjunct1, THEN mp, OF example_signup_run]
  obtain u where
    "users
      (example_store
        \<lparr>users := users example_store @
           [\<lparr>user_ID = 3, Email = ''bob@example.com'', Password = ''hash-of-hunter22'',
             Role = ''customer'',
             APIKey = Some ''sk-sdk-000102030405060708090a0b0c0d0eff''\<rparr>],
         customers := customers example_store @
           [\<lparr>cust_ID = 2, UserID = 3, cust_Name = ''Bob'', Phone = [],
             cust_DeletedAt = None\<rparr>],
         users_seq := 4, customers_seq := 3\<rparr>) = users example_store @ [u]"
    and "HasAPIKey u"
    by (elim exE conjE)
  then have "HasAPIKey
        (last (users (snd (CustomerSignup example_hash example_sign example_store
                             (Some example_signup) (Some example_entropy) (example_time 2 1)
                             True True))))"
    unfolding example_signup_run by simp
  with example_signup_run show ?thesis by (rule conjI)
qed

text \<open>
  The claim as first stated has the key of a signed-up user absent until the first SDK
  login. Right after Bob's signup, with no SDK login at all, the store holds his key.
\<close>

theorem signup_assigns_api_key_counterexample:
  "map HasAPIKey
     (users (snd (CustomerSignup example_hash example_sign example_store (Some example_signup)
                    (Some example_entropy) (example_time 2 1) True True))) =
   [False, False, True]"
  by (simp add: example_signup_run) (simp add: example_store_def HasAPIKey_def)

end
